theory Spec2Isabelle
  imports Complex_Main "HOL-Library.AList" "HOL-Library.Multiset"
begin

section \<open>JSON values as the engine sees them\<close>

text \<open>
  The engine is TypeScript over in-memory JSON.  A value is one of the six JSON kinds or
  JavaScript's \<open>undefined\<close>, which the path engine writes into arrays and objects while it
  creates missing structure.  Objects are association lists in insertion order
  (\<open>obj[k] = v\<close> overwrites in place or appends, \<open>delete obj[k]\<close> removes).  Arrays carry,
  next to their elements, the non-index own properties that an assignment such as
  \<open>arr[-1] = v\<close> creates; an array read from JSON text has none.

  Numbers are the integers (JSON numbers without fraction or exponent); strings are lists of
  8-bit characters.
\<close>

datatype json =
    JUndefined
  | JNull
  | JBool bool
  | JNum int
  | JStr string
  | JArr "json list" "(string \<times> json) list"
  | JObj "(string \<times> json) list"

datatype error =
    JsonPathError string string
  | TypeError
  | JsonMergeError string string json json
  | JsonCompareError string
  | JsonGeneratorError string json json
  | SyntaxError string

text \<open>\<open>Array.isArray\<close>, and the \<open>typeof v === 'object' && v !== null\<close> test on a non-array.\<close>

fun isArray :: "json \<Rightarrow> bool" where
  "isArray (JArr xs ps) = True"
| "isArray v = False"

fun isPlainObject :: "json \<Rightarrow> bool" where
  "isPlainObject (JObj al) = True"
| "isPlainObject v = False"

definition isNullish :: "json \<Rightarrow> bool" where
  "isNullish v = (v = JUndefined \<or> v = JNull)"

text \<open>
  \<open>key in obj\<close> on a plain object holds for the object's own keys and for the names every
  object inherits from \<open>Object.prototype\<close>.  What \<open>obj[key]\<close> gives for an inherited name is
  a built-in function (for \<open>__proto__\<close> the prototype itself), which is no JSON value: where
  the code goes on to use that member the definitions below follow the own keys only, and
  the statements about them say which keys they cover.
\<close>

definition prototype_names :: "string list" where
  "prototype_names =
     [''constructor'', ''__defineGetter__'', ''__defineSetter__'', ''hasOwnProperty'',
      ''__lookupGetter__'', ''__lookupSetter__'', ''isPrototypeOf'', ''propertyIsEnumerable'',
      ''toString'', ''valueOf'', ''__proto__'', ''toLocaleString'']"

definition has_property :: "(string \<times> json) list \<Rightarrow> string \<Rightarrow> bool" where
  "has_property al key = (map_of al key \<noteq> None \<or> key \<in> set prototype_names)"

subsection \<open>Strings\<close>

definition dquote :: char where "dquote = CHR 0x22"
definition squote :: char where "squote = CHR 0x27"
definition backslash :: char where "backslash = CHR 0x5C"

definition digit_char :: "nat \<Rightarrow> char" where
  "digit_char d = char_of (48 + d)"

fun show_nat :: "nat \<Rightarrow> string" where
  "show_nat n = (if n < 10 then [digit_char n] else show_nat (n div 10) @ [digit_char (n mod 10)])"

declare show_nat.simps [simp del]

text \<open>\<open>String(n)\<close> for an integer \<open>n\<close>.\<close>

definition show_int :: "int \<Rightarrow> string" where
  "show_int i = (if i < 0 then CHR ''-'' # show_nat (nat (- i)) else show_nat (nat i))"

definition is_digit :: "char \<Rightarrow> bool" where
  "is_digit c = (48 \<le> (of_char c :: nat) \<and> (of_char c :: nat) \<le> 57)"

text \<open>The white space \<open>String.prototype.trim\<close> removes, within the 8-bit characters.\<close>

definition is_space :: "char \<Rightarrow> bool" where
  "is_space c = (c \<in> set [CHR 0x20, CHR 0x09, CHR 0x0A, CHR 0x0B, CHR 0x0C, CHR 0x0D, CHR 0xA0])"

definition trim :: "string \<Rightarrow> string" where
  "trim s = rev (dropWhile is_space (rev (dropWhile is_space s)))"

text \<open>\<open>s.replace(/pat/g, rep)\<close> for a literal, non-empty pattern.\<close>

fun replace_all :: "string \<Rightarrow> string \<Rightarrow> string \<Rightarrow> string" where
  "replace_all pat rep [] = []"
| "replace_all pat rep (c # cs) =
     (if pat \<noteq> [] \<and> take (length pat) (c # cs) = pat
      then rep @ replace_all pat rep (drop (length pat) (c # cs))
      else c # replace_all pat rep cs)"

text \<open>\<open>xs.join(sep)\<close> on strings.\<close>

fun join :: "string \<Rightarrow> string list \<Rightarrow> string" where
  "join sep [] = []"
| "join sep [x] = x"
| "join sep (x # y # ys) = x @ sep @ join sep (y # ys)"

section \<open>Path engine (\<open>json.path.ts\<close>)\<close>

subsection \<open>\<open>parsePathExpression\<close>\<close>

datatype segment = SKey string | SIdx int

text \<open>\<open>/^-?\d+$/.test(content)\<close> and \<open>parseInt(content, 10)\<close> on such a string.\<close>

definition is_index_text :: "string \<Rightarrow> bool" where
  "is_index_text s =
     (let ds = (if s \<noteq> [] \<and> hd s = CHR ''-'' then tl s else s)
      in ds \<noteq> [] \<and> list_all is_digit ds)"

definition digits_value :: "string \<Rightarrow> nat" where
  "digits_value ds = foldl (\<lambda>acc c. 10 * acc + (of_char c - 48)) 0 ds"

definition parseInt :: "string \<Rightarrow> int" where
  "parseInt s = (if s \<noteq> [] \<and> hd s = CHR ''-'' then - int (digits_value (tl s)) else int (digits_value s))"

definition is_quoted :: "string \<Rightarrow> bool" where
  "is_quoted s = (s \<noteq> [] \<and> ((hd s = dquote \<and> last s = dquote) \<or> (hd s = squote \<and> last s = squote)))"

text \<open>
  What the parser pushes when it meets the closing bracket: \<open>content\<close> is the trimmed text
  between the brackets.
\<close>

definition bracket_segment :: "string \<Rightarrow> string \<Rightarrow> error + segment" where
  "bracket_segment expression content =
     (if content = [] then Inl (JsonPathError ''Empty bracket expression'' expression)
      else if is_index_text content then Inr (SIdx (parseInt content))
      else if is_quoted content
        then Inr (SKey (replace_all [backslash, squote] [squote]
                         (replace_all [backslash, dquote] [dquote]
                           (take (length content - 2) (drop 1 content)))))
      else Inr (SKey content))"

text \<open>
  The scanner's variables: the segments so far, the text of the segment being read, whether
  the scan is inside brackets, the open quote character (if any) and the character before
  the current one (for the escape test \<open>expression[i - 1] !== '\\'\<close>).
\<close>

record scan =
  segments :: "segment list"
  current :: string
  inBrackets :: bool
  quoteChar :: "char option"
  previous :: "char option"

definition scan_char :: "string \<Rightarrow> scan \<Rightarrow> char \<Rightarrow> error + scan" where
  "scan_char expression s c =
     (if inBrackets s then
        (case quoteChar s of
           Some q \<Rightarrow>
             Inr (s\<lparr>quoteChar := (if c = q \<and> previous s \<noteq> Some backslash then None else Some q),
                     current := current s @ [c], previous := Some c\<rparr>)
         | None \<Rightarrow>
             if c = dquote \<or> c = squote
               then Inr (s\<lparr>quoteChar := Some c, current := current s @ [c], previous := Some c\<rparr>)
             else if c = CHR '']''
               then (case bracket_segment expression (trim (current s)) of
                       Inl e \<Rightarrow> Inl e
                     | Inr seg \<Rightarrow>
                         Inr (s\<lparr>inBrackets := False, segments := segments s @ [seg],
                                 current := [], previous := Some c\<rparr>))
             else Inr (s\<lparr>current := current s @ [c], previous := Some c\<rparr>))
      else if c = CHR ''.'' then
        Inr (if current s \<noteq> []
             then s\<lparr>segments := segments s @ [SKey (current s)], current := [], previous := Some c\<rparr>
             else s\<lparr>previous := Some c\<rparr>)
      else if c = CHR ''['' then
        Inr (if current s \<noteq> []
             then s\<lparr>segments := segments s @ [SKey (current s)], current := [],
                     inBrackets := True, previous := Some c\<rparr>
             else s\<lparr>inBrackets := True, previous := Some c\<rparr>)
      else Inr (s\<lparr>current := current s @ [c], previous := Some c\<rparr>))"

fun scan_all :: "string \<Rightarrow> scan \<Rightarrow> string \<Rightarrow> error + scan" where
  "scan_all expression s [] = Inr s"
| "scan_all expression s (c # cs) =
     (case scan_char expression s c of Inl e \<Rightarrow> Inl e | Inr s' \<Rightarrow> scan_all expression s' cs)"

definition parsePathExpression :: "string \<Rightarrow> error + segment list" where
  "parsePathExpression expression =
     (if expression = [] then Inr []
      else case scan_all expression
                  \<lparr>segments = [], current = [], inBrackets = False, quoteChar = None, previous = None\<rparr>
                  expression of
             Inl e \<Rightarrow> Inl e
           | Inr s \<Rightarrow>
               if inBrackets s then Inl (JsonPathError ''Unclosed bracket in path expression'' expression)
               else Inr (if current s \<noteq> [] then segments s @ [SKey (current s)] else segments s))"

subsection \<open>\<open>createDefaultValue\<close> and \<open>getPathString\<close>\<close>

fun createDefaultValue :: "segment option \<Rightarrow> segment option \<Rightarrow> json" where
  "createDefaultValue currentSegment (Some (SIdx n)) = JArr [] []"
| "createDefaultValue currentSegment (Some (SKey k)) = (if k = ''0'' then JArr [] [] else JObj [])"
| "createDefaultValue (Some (SIdx n)) None = JArr [] []"
| "createDefaultValue currentSegment None = JObj []"

definition segment_text :: "segment \<Rightarrow> string" where
  "segment_text s = (case s of SIdx n \<Rightarrow> ''['' @ show_int n @ '']'' | SKey k \<Rightarrow> k)"

definition getPathString :: "segment list \<Rightarrow> string" where
  "getPathString segs = replace_all ''.['' ''['' (join ''.'' (map segment_text segs))"

text \<open>\<open>`${segment}`\<close> in a message.\<close>

definition segment_shown :: "segment \<Rightarrow> string" where
  "segment_shown s = (case s of SIdx n \<Rightarrow> show_int n | SKey k \<Rightarrow> k)"

subsection \<open>Reading and writing the caller's object graph\<close>

text \<open>
  The path engine never copies: \<open>current\<close> and \<open>parent\<close> are references into the value it
  was given, and every assignment goes through them.  JSON values are trees, so a reference
  is the list of slots that leads to the node from the root, and an assignment through a
  reference is an update of the tree at that place.  Reading a slot that is not there gives
  \<open>undefined\<close>, as in JavaScript.
\<close>

datatype slot = AtKey string | AtIdx nat | AtProp string

fun get_slot :: "json \<Rightarrow> slot \<Rightarrow> json" where
  "get_slot (JObj al) (AtKey k) = (case map_of al k of Some v \<Rightarrow> v | None \<Rightarrow> JUndefined)"
| "get_slot (JArr xs ps) (AtIdx n) = (if n < length xs then xs ! n else JUndefined)"
| "get_slot (JArr xs ps) (AtProp k) = (case map_of ps k of Some v \<Rightarrow> v | None \<Rightarrow> JUndefined)"
| "get_slot v s = JUndefined"

fun set_slot :: "json \<Rightarrow> slot \<Rightarrow> json \<Rightarrow> json" where
  "set_slot (JObj al) (AtKey k) v = JObj (AList.update k v al)"
| "set_slot (JArr xs ps) (AtIdx n) v =
     JArr ((xs @ replicate (Suc n - length xs) JUndefined)[n := v]) ps"
| "set_slot (JArr xs ps) (AtProp k) v = JArr xs (AList.update k v ps)"
| "set_slot t s v = t"

fun get_at :: "json \<Rightarrow> slot list \<Rightarrow> json" where
  "get_at t [] = t"
| "get_at t (s # ss) = get_at (get_slot t s) ss"

fun set_at :: "json \<Rightarrow> slot list \<Rightarrow> json \<Rightarrow> json" where
  "set_at t [] v = v"
| "set_at t (s # ss) v = set_slot t s (set_at (get_slot t s) ss v)"

text \<open>
  The slot that \<open>node[key]\<close> names.  On an array a non-negative number is an element and a
  negative number is the property of that name; on an object every key is a property name.
  (A string key on an array cannot reach an assignment: the traversal raises first.)
\<close>

fun slot_of :: "json \<Rightarrow> segment \<Rightarrow> slot" where
  "slot_of (JArr xs ps) (SIdx n) = (if 0 \<le> n then AtIdx (nat n) else AtProp (show_int n))"
| "slot_of (JArr xs ps) (SKey k) = AtProp k"
| "slot_of v (SKey k) = AtKey k"
| "slot_of v (SIdx n) = AtKey (show_int n)"

text \<open>
  \<open>node[key] = v\<close> where \<open>node\<close> is the reference \<open>ref\<close> into \<open>tree\<close>.  The module is strict
  code, so creating a property on a primitive raises \<open>TypeError\<close>.
\<close>

definition assign :: "json \<Rightarrow> slot list \<Rightarrow> segment \<Rightarrow> json \<Rightarrow> error + json" where
  "assign tree ref key v =
     (let node = get_at tree ref
      in if isArray node \<or> isPlainObject node
         then Inr (set_at tree (ref @ [slot_of node key]) v)
         else Inl TypeError)"

text \<open>\<open>arr.splice(start, 1)\<close>: a negative start counts from the end.\<close>

definition splice1 :: "json list \<Rightarrow> int \<Rightarrow> json list" where
  "splice1 xs start =
     (let len = int (length xs);
          s = (if start < 0 then max (len + start) 0 else min start len)
      in take (nat s) xs @ drop (Suc (nat s)) xs)"

text \<open>
  The final \<open>delete\<close>: \<open>parent.splice(parentKey, 1)\<close> on an array, \<open>delete parent[parentKey]\<close>
  otherwise (which does nothing on a primitive).
\<close>

definition remove_child :: "json \<Rightarrow> segment \<Rightarrow> json" where
  "remove_child node key =
     (case node of
        JArr xs ps \<Rightarrow> JArr (splice1 xs (case key of SIdx n \<Rightarrow> n | SKey k \<Rightarrow> 0)) ps
      | JObj al \<Rightarrow> JObj (AList.delete (segment_shown key) al)
      | v \<Rightarrow> v)"

subsection \<open>\<open>jsonPath\<close>\<close>

record JsonPathOptions =
  create :: bool
  deleteFlag :: bool
  newValue :: json

definition default_options :: JsonPathOptions where
  "default_options = \<lparr>create = False, deleteFlag = False, newValue = JUndefined\<rparr>"

text \<open>
  The loop's variables.  \<open>tree\<close> is the object graph the references point into: the
  caller's value, or (when the caller's value is \<open>null\<close>/\<open>undefined\<close> and \<open>create\<close> is set) the
  container the engine made in its place, which is then not attached to anything the caller
  holds (\<open>detached\<close>).  \<open>cur\<close> is the reference \<open>current\<close>, \<open>parent\<close> the reference \<open>parent\<close>
  (\<open>None\<close> for \<open>null\<close>).
\<close>

record loop_state =
  tree :: json
  detached :: bool
  cur :: "slot list"
  parent :: "slot list option"
  parentKey :: segment
  exists :: bool

definition current_value :: "loop_state \<Rightarrow> json" where
  "current_value st = get_at (tree st) (cur st)"

datatype step = Throw error loop_state | Break loop_state | Continue loop_state

text \<open>
  Lines 52--73: \<open>current\<close> is \<open>null\<close> or \<open>undefined\<close>.  \<open>next1\<close> and \<open>next2\<close> are
  \<open>segments[i + 1]\<close> and \<open>segments[i + 2]\<close>, \<open>done\<close> is \<open>segments.slice(0, i)\<close>.
\<close>

definition null_step ::
  "string \<Rightarrow> bool \<Rightarrow> segment list \<Rightarrow> segment \<Rightarrow> segment option \<Rightarrow> segment option \<Rightarrow>
   loop_state \<Rightarrow> step" where
  "null_step expression create_mode done seg next1 next2 st =
     (if isNullish (current_value st) then
        (let st1 = st\<lparr>exists := False\<rparr> in
         if \<not> create_mode
         then Throw (JsonPathError (''Cannot traverse null/undefined at path: '' @ getPathString done)
                       expression) st1
         else
           (let fresh = (if next1 = None then createDefaultValue (Some seg) next1
                         else createDefaultValue next1 next2)
            in case parent st1 of
                 None \<Rightarrow> Continue (st1\<lparr>tree := fresh, detached := True, cur := []\<rparr>)
               | Some p \<Rightarrow>
                   (case assign (tree st1) p (parentKey st1) fresh of
                      Inl e \<Rightarrow> Throw e st1
                    | Inr t \<Rightarrow>
                        Continue (st1\<lparr>tree := t,
                                       cur := p @ [slot_of (get_at (tree st1) p) (parentKey st1)]\<rparr>))))
      else Continue st)"

text \<open>Lines 80--112: \<open>current\<close> is an array.\<close>

definition pad_to :: "json \<Rightarrow> int \<Rightarrow> json" where
  "pad_to node k =
     (case node of
        JArr xs ps \<Rightarrow> JArr (xs @ replicate (nat (k + 1) - length xs) JUndefined) ps
      | v \<Rightarrow> v)"

definition array_step ::
  "string \<Rightarrow> bool \<Rightarrow> segment \<Rightarrow> json list \<Rightarrow> loop_state \<Rightarrow> step" where
  "array_step expression create_mode seg xs st =
     (case seg of
        SKey k \<Rightarrow> Throw (JsonPathError (''Expected array index, got: '' @ k) expression) st
      | SIdx n \<Rightarrow>
          if n < 0 then
            (let adjustedIndex = int (length xs) + n in
             if adjustedIndex < 0 \<or> adjustedIndex \<ge> int (length xs) then
               (if create_mode
                then Continue (st\<lparr>tree := set_at (tree st) (cur st) (pad_to (current_value st) adjustedIndex),
                                   cur := cur st @ [slot_of (current_value st) (SIdx adjustedIndex)]\<rparr>)
                else Throw (JsonPathError (''Array index out of bounds: '' @ show_int n) expression) st)
             else Continue (st\<lparr>cur := cur st @ [AtIdx (nat adjustedIndex)]\<rparr>))
          else
            (if n \<ge> int (length xs) then
               (if create_mode
                then Continue (st\<lparr>tree := set_at (tree st) (cur st) (pad_to (current_value st) n),
                                   cur := cur st @ [AtIdx (nat n)]\<rparr>)
                else Throw (JsonPathError (''Array index out of bounds: '' @ show_int n) expression) st)
             else Continue (st\<lparr>cur := cur st @ [AtIdx (nat n)]\<rparr>)))"

text \<open>
  Lines 114--133: \<open>current\<close> is a plain object.  The test \<open>segment in current\<close> is taken on
  the own keys: a segment that names a member of \<open>Object.prototype\<close> leads the code into that
  member, which this step does not follow.
\<close>

definition object_step ::
  "string \<Rightarrow> bool \<Rightarrow> segment \<Rightarrow> segment option \<Rightarrow> segment option \<Rightarrow>
   (string \<times> json) list \<Rightarrow> loop_state \<Rightarrow> step" where
  "object_step expression create_mode seg next1 next2 al st =
     (case seg of
        SIdx n \<Rightarrow> Throw (JsonPathError (''Expected object key, got: '' @ show_int n) expression) st
      | SKey k \<Rightarrow>
          if map_of al k = None then
            (if create_mode then
               Continue (st\<lparr>tree := set_at (tree st) (cur st @ [AtKey k])
                                       (if next1 = None then JUndefined
                                        else createDefaultValue next1 next2),
                             cur := cur st @ [AtKey k]\<rparr>)
             else if next1 \<noteq> None then Break (st\<lparr>exists := False\<rparr>)
             else Continue (st\<lparr>cur := cur st @ [AtKey k]\<rparr>))
          else Continue (st\<lparr>cur := cur st @ [AtKey k]\<rparr>))"

text \<open>
  Lines 135--151: \<open>current\<close> is a boolean, a number or a string.  \<open>parent\<close> is by now that
  same primitive, so the assignment of the fresh container raises.
\<close>

definition primitive_step ::
  "bool \<Rightarrow> segment \<Rightarrow> segment option \<Rightarrow> loop_state \<Rightarrow> step" where
  "primitive_step create_mode seg next1 st =
     (if create_mode \<and> next1 = None then
        (case parent st of
           None \<Rightarrow>
             Continue (st\<lparr>tree := createDefaultValue (Some seg) next1, detached := True, cur := []\<rparr>)
         | Some p \<Rightarrow>
             (case assign (tree st) p (parentKey st) (createDefaultValue (Some seg) next1) of
                Inl e \<Rightarrow> Throw e st
              | Inr t \<Rightarrow> Continue (st\<lparr>tree := t, cur := p @ [slot_of (get_at (tree st) p) (parentKey st)]\<rparr>)))
      else Break (st\<lparr>exists := False\<rparr>))"

text \<open>One iteration of the \<open>for\<close> loop.\<close>

definition loop_body ::
  "string \<Rightarrow> bool \<Rightarrow> segment list \<Rightarrow> segment \<Rightarrow> segment option \<Rightarrow> segment option \<Rightarrow>
   loop_state \<Rightarrow> step" where
  "loop_body expression create_mode done seg next1 next2 st =
     (case null_step expression create_mode done seg next1 next2 st of
        Continue st1 \<Rightarrow>
          (let st2 = st1\<lparr>parent := Some (cur st1), parentKey := seg\<rparr> in
           case current_value st2 of
             JArr xs ps \<Rightarrow> array_step expression create_mode seg xs st2
           | JObj al \<Rightarrow> object_step expression create_mode seg next1 next2 al st2
           | v \<Rightarrow> primitive_step create_mode seg next1 st2)
      | other \<Rightarrow> other)"

definition nth_opt :: "'a list \<Rightarrow> nat \<Rightarrow> 'a option" where
  "nth_opt xs n = (if n < length xs then Some (xs ! n) else None)"

fun traverse ::
  "string \<Rightarrow> bool \<Rightarrow> segment list \<Rightarrow> segment list \<Rightarrow> loop_state \<Rightarrow> (error \<times> loop_state) + loop_state" where
  "traverse expression create_mode done [] st = Inr st"
| "traverse expression create_mode done (seg # rest) st =
     (case loop_body expression create_mode done seg (nth_opt rest 0) (nth_opt rest 1) st of
        Throw e st' \<Rightarrow> Inl (e, st')
      | Break st' \<Rightarrow> Inr st'
      | Continue st' \<Rightarrow> traverse expression create_mode (done @ [seg]) rest st')"

text \<open>
  What a call leaves behind and what it gives back: \<open>arg_after\<close> is the caller's argument as
  it is once the call is over, \<open>outcome\<close> the returned value or the raised error.
\<close>

record 'a call =
  arg_after :: json
  outcome :: "error + 'a"

record JsonPathResult =
  rvalue :: json
  rparent :: "json option"
  rkey :: segment
  rexists :: bool
  rtarget :: json

text \<open>The caller's argument, given the loop's graph.\<close>

definition caller_view :: "json \<Rightarrow> loop_state \<Rightarrow> json" where
  "caller_view json st = (if detached st then json else tree st)"

definition parent_value :: "loop_state \<Rightarrow> json option" where
  "parent_value st = map_option (get_at (tree st)) (parent st)"

text \<open>Lines 154--226: the operations after the loop.\<close>

definition finish :: "json \<Rightarrow> JsonPathOptions \<Rightarrow> loop_state \<Rightarrow> JsonPathResult call" where
  "finish json options st =
     (if exists st then
        (if deleteFlag options then
           (let st1 = (case parent st of
                         None \<Rightarrow> st
                       | Some p \<Rightarrow> st\<lparr>tree := set_at (tree st) p
                                                (remove_child (get_at (tree st) p) (parentKey st))\<rparr>)
            in \<lparr>arg_after = caller_view json st1,
                outcome = Inr \<lparr>rvalue = JUndefined, rparent = parent_value st1, rkey = parentKey st1,
                                rexists = False, rtarget = caller_view json st1\<rparr>\<rparr>)
         else if newValue options \<noteq> JUndefined then
           (case parent st of
              None \<Rightarrow>
                \<lparr>arg_after = caller_view json st,
                 outcome = Inr \<lparr>rvalue = newValue options, rparent = None, rkey = parentKey st,
                                 rexists = True, rtarget = caller_view json st\<rparr>\<rparr>
            | Some p \<Rightarrow>
                (case assign (tree st) p (parentKey st) (newValue options) of
                   Inl e \<Rightarrow> \<lparr>arg_after = caller_view json st, outcome = Inl e\<rparr>
                 | Inr t \<Rightarrow>
                     (let st1 = st\<lparr>tree := t\<rparr>
                      in \<lparr>arg_after = caller_view json st1,
                          outcome = Inr \<lparr>rvalue = newValue options, rparent = parent_value st1,
                                          rkey = parentKey st1, rexists = True,
                                          rtarget = caller_view json st1\<rparr>\<rparr>)))
         else
           \<lparr>arg_after = caller_view json st,
            outcome = Inr \<lparr>rvalue = current_value st, rparent = parent_value st, rkey = parentKey st,
                            rexists = True, rtarget = caller_view json st\<rparr>\<rparr>)
      else
        (case (if create options \<and> newValue options \<noteq> JUndefined then parent st else None) of
           Some p \<Rightarrow>
             (case assign (tree st) p (parentKey st) (newValue options) of
                Inl e \<Rightarrow> \<lparr>arg_after = caller_view json st, outcome = Inl e\<rparr>
              | Inr t \<Rightarrow>
                  (let st1 = st\<lparr>tree := t\<rparr>
                   in \<lparr>arg_after = caller_view json st1,
                       outcome = Inr \<lparr>rvalue = newValue options, rparent = parent_value st1,
                                       rkey = parentKey st1, rexists = True,
                                       rtarget = caller_view json st1\<rparr>\<rparr>))
         | None \<Rightarrow>
             \<lparr>arg_after = caller_view json st,
              outcome = Inr \<lparr>rvalue = JUndefined, rparent = parent_value st, rkey = parentKey st,
                              rexists = False, rtarget = caller_view json st\<rparr>\<rparr>))"

definition jsonPath :: "json \<Rightarrow> string \<Rightarrow> JsonPathOptions \<Rightarrow> JsonPathResult call" where
  "jsonPath json expression options =
     (case parsePathExpression expression of
        Inl e \<Rightarrow> \<lparr>arg_after = json, outcome = Inl e\<rparr>
      | Inr segs \<Rightarrow>
          if segs = [] then
            \<lparr>arg_after = json,
             outcome = Inr \<lparr>rvalue = json, rparent = None, rkey = SKey [], rexists = True,
                             rtarget = json\<rparr>\<rparr>
          else
            (case traverse expression (create options) [] segs
                    \<lparr>tree = json, detached = False, cur = [], parent = None, parentKey = SKey [],
                     exists = True\<rparr> of
               Inl (e, st) \<Rightarrow> \<lparr>arg_after = caller_view json st, outcome = Inl e\<rparr>
             | Inr st \<Rightarrow> finish json options st))"

subsection \<open>The wrappers\<close>

text \<open>\<open>getValue\<close> turns every raised error into \<open>undefined\<close>.\<close>

definition getValue :: "json \<Rightarrow> string \<Rightarrow> json call" where
  "getValue json path =
     (let r = jsonPath json path default_options
      in \<lparr>arg_after = arg_after r,
          outcome = Inr (case outcome r of Inl e \<Rightarrow> JUndefined | Inr res \<Rightarrow> rvalue res)\<rparr>)"

definition setValue :: "json \<Rightarrow> string \<Rightarrow> json \<Rightarrow> json call" where
  "setValue json path v =
     (let r = jsonPath json path \<lparr>create = True, deleteFlag = False, newValue = v\<rparr>
      in \<lparr>arg_after = arg_after r,
          outcome = (case outcome r of Inl e \<Rightarrow> Inl e | Inr res \<Rightarrow> Inr (rtarget res))\<rparr>)"

text \<open>\<open>deleteValue\<close> returns the reference it was given.\<close>

definition deleteValue :: "json \<Rightarrow> string \<Rightarrow> json call" where
  "deleteValue json path =
     (let r = jsonPath json path \<lparr>create = False, deleteFlag = True, newValue = JUndefined\<rparr>
      in \<lparr>arg_after = arg_after r,
          outcome = (case outcome r of Inl e \<Rightarrow> Inl e | Inr res \<Rightarrow> Inr (arg_after r))\<rparr>)"

definition hasPath :: "json \<Rightarrow> string \<Rightarrow> bool call" where
  "hasPath json path =
     (let r = jsonPath json path default_options
      in \<lparr>arg_after = arg_after r,
          outcome = Inr (case outcome r of Inl e \<Rightarrow> False | Inr res \<Rightarrow> rexists res)\<rparr>)"
text \<open>The loop state a step ends in, whichever way it ends.\<close>

fun step_state :: "step \<Rightarrow> loop_state" where
  "step_state (Throw e st) = st"
| "step_state (Break st) = st"
| "step_state (Continue st) = st"


section \<open>Conversions to text\<close>

text \<open>\<open>String(v)\<close>, which template literals apply; array elements go through \<open>join\<close>.\<close>

fun js_String :: "json \<Rightarrow> string" where
  "js_String JUndefined = ''undefined''"
| "js_String JNull = ''null''"
| "js_String (JBool b) = (if b then ''true'' else ''false'')"
| "js_String (JNum n) = show_int n"
| "js_String (JStr s) = s"
| "js_String (JArr xs ps) =
     join '','' (map (\<lambda>x. if x = JUndefined \<or> x = JNull then [] else js_String x) xs)"
| "js_String (JObj al) = ''[object Object]''"

text \<open>\<open>xs.join(sep)\<close> on an array of values.\<close>

definition join_values :: "string \<Rightarrow> json list \<Rightarrow> string" where
  "join_values sep xs =
     join sep (map (\<lambda>x. if x = JUndefined \<or> x = JNull then [] else js_String x) xs)"

definition hex_digit :: "nat \<Rightarrow> char" where
  "hex_digit d = (if d < 10 then char_of (48 + d) else char_of (87 + d))"

text \<open>The escapes of \<open>JSON.stringify\<close> on the characters of a string.\<close>

definition escape_char :: "char \<Rightarrow> string" where
  "escape_char c =
     (if c = dquote then [backslash, dquote]
      else if c = backslash then [backslash, backslash]
      else if c = CHR 0x08 then [backslash, CHR ''b'']
      else if c = CHR 0x0C then [backslash, CHR ''f'']
      else if c = CHR 0x0A then [backslash, CHR ''n'']
      else if c = CHR 0x0D then [backslash, CHR ''r'']
      else if c = CHR 0x09 then [backslash, CHR ''t'']
      else if (of_char c :: nat) < 32
        then [backslash, CHR ''u'', CHR ''0'', CHR ''0'',
              hex_digit ((of_char c :: nat) div 16), hex_digit ((of_char c :: nat) mod 16)]
      else [c])"

definition quote :: "string \<Rightarrow> string" where
  "quote s = [dquote] @ concat (map escape_char s) @ [dquote]"

text \<open>
  \<open>JSON.stringify(v)\<close>: \<open>None\<close> is the result \<open>undefined\<close>.  An \<open>undefined\<close> array element
  is written \<open>null\<close>, an \<open>undefined\<close> property is left out.
\<close>

fun stringify :: "json \<Rightarrow> string option" where
  "stringify JUndefined = None"
| "stringify JNull = Some ''null''"
| "stringify (JBool b) = Some (if b then ''true'' else ''false'')"
| "stringify (JNum n) = Some (show_int n)"
| "stringify (JStr s) = Some (quote s)"
| "stringify (JArr xs ps) =
     Some (''['' @ join '','' (map (\<lambda>x. case stringify x of None \<Rightarrow> ''null'' | Some t \<Rightarrow> t) xs) @ '']'')"
| "stringify (JObj al) =
     Some (''{'' @ join '',''
             (concat (map (\<lambda>kv. case stringify (snd kv) of
                                    None \<Rightarrow> []
                                  | Some t \<Rightarrow> [quote (fst kv) @ '':'' @ t]) al)) @ ''}'')"

section \<open>Validate engine (\<open>json.validator.ts\<close>)\<close>

text \<open>
  The schema fields the validator reads.  \<open>type\<close> is a name or a list of names;
  \<open>additionalProperties\<close> is only ever compared with \<open>false\<close>, so a schema in that place
  counts as \<open>true\<close>; \<open>allOf\<close>, \<open>anyOf\<close>, \<open>oneOf\<close> and \<open>not\<close> are never read.
\<close>

datatype type_spec = TypeName string | TypeNames "string list"

record constraints =
  stype :: "type_spec option"
  required :: "string list option"
  minItems :: "int option"
  maxItems :: "int option"
  uniqueItems :: bool
  minLength :: "int option"
  maxLength :: "int option"
  pattern :: "string option"
  format :: "string option"
  minimum :: "int option"
  maximum :: "int option"
  exclusiveMinimum :: "int option"
  exclusiveMaximum :: "int option"
  multipleOf :: "int option"
  enum_values :: "json list option"
  const_value :: "json option"
  additionalProperties :: "bool option"
  minProperties :: "int option"
  maxProperties :: "int option"

datatype schema =
  Schema (constraints: constraints) (properties: "(string \<times> schema) list option") (items: "schema option")

record ValidationError =
  e_path :: string
  e_message :: string
  e_value :: json
  e_expected :: json

record ValidationResult =
  valid :: bool
  errors :: "ValidationError list"

text \<open>
  What the validator takes from the platform: the regular-expression engine
  (\<open>new RegExp(p)\<close> raises \<open>SyntaxError\<close> on a pattern that does not compile), the \<open>URL\<close>
  constructor and \<open>Date.parse\<close>.
\<close>

record platform =
  regex_compiles :: "string \<Rightarrow> bool"
  regex_test :: "string \<Rightarrow> string \<Rightarrow> string \<Rightarrow> bool"
  url_parses :: "string \<Rightarrow> bool"
  date_parses :: "string \<Rightarrow> bool"

definition createError :: "string \<Rightarrow> string \<Rightarrow> json \<Rightarrow> json \<Rightarrow> ValidationError" where
  "createError path message v expected =
     \<lparr>e_path = path, e_message = message, e_value = v, e_expected = expected\<rparr>"

fun getTypeName :: "json \<Rightarrow> string" where
  "getTypeName JNull = ''null''"
| "getTypeName (JArr xs ps) = ''array''"
| "getTypeName (JObj al) = ''object''"
| "getTypeName JUndefined = ''undefined''"
| "getTypeName (JBool b) = ''boolean''"
| "getTypeName (JNum n) = ''number''"
| "getTypeName (JStr s) = ''string''"

definition email_pattern :: string where
  "email_pattern = ''^[^'' @ [backslash] @ ''s@]+@[^'' @ [backslash] @ ''s@]+'' @ [backslash]
                   @ ''.[^'' @ [backslash] @ ''s@]+$''"

definition date_pattern :: string where
  "date_pattern = ''^'' @ [backslash] @ ''d{4}-'' @ [backslash] @ ''d{2}-'' @ [backslash] @ ''d{2}$''"

definition uuid_pattern :: string where
  "uuid_pattern = ''^[0-9a-f]{8}-[0-9a-f]{4}-[1-5][0-9a-f]{3}-[89ab][0-9a-f]{3}-[0-9a-f]{12}$''"

definition validateFormat :: "platform \<Rightarrow> string \<Rightarrow> string \<Rightarrow> bool" where
  "validateFormat P v fmt =
     (if fmt = ''email'' then regex_test P email_pattern '''' v
      else if fmt = ''url'' then url_parses P v
      else if fmt = ''date'' then regex_test P date_pattern '''' v \<and> date_parses P v
      else if fmt = ''date-time'' then date_parses P v
      else if fmt = ''uuid'' then regex_test P uuid_pattern ''i'' v
      else True)"

text \<open>The type check at the head of \<open>validateAgainstSchema\<close>: the names to expect, if any.\<close>

definition expectedTypes :: "constraints \<Rightarrow> string list option" where
  "expectedTypes c =
     (case stype c of
        None \<Rightarrow> None
      | Some (TypeName t) \<Rightarrow> if t = [] then None else Some [t]
      | Some (TypeNames ts) \<Rightarrow> Some ts)"

definition type_error :: "json \<Rightarrow> string list \<Rightarrow> string \<Rightarrow> ValidationError" where
  "type_error json ts basePath =
     createError basePath
       (''Type '' @ [dquote] @ getTypeName json @ [dquote] @ '' does not match expected type(s): ''
          @ join '', '' ts)
       json (JArr (map JStr ts) [])"

text \<open>\<open>validatePrimitiveAgainstSchema\<close>, check by check.\<close>

definition enum_errors :: "json \<Rightarrow> constraints \<Rightarrow> string \<Rightarrow> ValidationError list" where
  "enum_errors v c basePath =
     (case enum_values c of
        Some vs \<Rightarrow>
          if v \<notin> set vs
          then [createError basePath
                  (''Value '' @ [dquote] @ js_String v @ [dquote] @ '' is not in allowed values: ''
                     @ join_values '', '' vs)
                  v (JArr vs [])]
          else []
      | None \<Rightarrow> [])"

definition const_errors :: "json \<Rightarrow> constraints \<Rightarrow> string \<Rightarrow> ValidationError list" where
  "const_errors v c basePath =
     (case const_value c of
        Some k \<Rightarrow>
          if k \<noteq> JUndefined \<and> v \<noteq> k
          then [createError basePath
                  (''Value '' @ [dquote] @ js_String v @ [dquote] @ '' does not match constant ''
                     @ [dquote] @ js_String k @ [dquote])
                  v k]
          else []
      | None \<Rightarrow> [])"

definition format_errors :: "platform \<Rightarrow> json \<Rightarrow> constraints \<Rightarrow> string \<Rightarrow> ValidationError list" where
  "format_errors P v c basePath =
     (case (format c, v) of
        (Some fmt, JStr s) \<Rightarrow>
          if fmt \<noteq> [] \<and> \<not> validateFormat P s fmt
          then [createError basePath
                  (''Value '' @ [dquote] @ s @ [dquote] @ '' is not a valid '' @ fmt)
                  v (JStr (''valid '' @ fmt))]
          else []
      | _ \<Rightarrow> [])"

definition pattern_errors ::
  "platform \<Rightarrow> json \<Rightarrow> constraints \<Rightarrow> string \<Rightarrow> error + ValidationError list" where
  "pattern_errors P v c basePath =
     (case (pattern c, v) of
        (Some pat, JStr s) \<Rightarrow>
          if pat = [] then Inr []
          else if \<not> regex_compiles P pat then Inl (SyntaxError pat)
          else if \<not> regex_test P pat '''' s
          then Inr [createError basePath
                      (''Value '' @ [dquote] @ s @ [dquote] @ '' does not match pattern '' @ pat)
                      v (JStr (''matches '' @ pat))]
          else Inr []
      | _ \<Rightarrow> Inr [])"

definition numeric_errors :: "json \<Rightarrow> constraints \<Rightarrow> string \<Rightarrow> ValidationError list" where
  "numeric_errors v c basePath =
     (case v of
        JNum n \<Rightarrow>
          (case minimum c of
             Some m \<Rightarrow>
               if n < m
               then [createError basePath
                       (''Value '' @ show_int n @ '' is less than minimum '' @ show_int m)
                       v (JStr (''>= '' @ show_int m))]
               else []
           | None \<Rightarrow> [])
          @ (case exclusiveMinimum c of
               Some m \<Rightarrow>
                 if n \<le> m
                 then [createError basePath
                         (''Value '' @ show_int n @ '' is not greater than '' @ show_int m)
                         v (JStr (''> '' @ show_int m))]
                 else []
             | None \<Rightarrow> [])
          @ (case maximum c of
               Some m \<Rightarrow>
                 if n > m
                 then [createError basePath
                         (''Value '' @ show_int n @ '' exceeds maximum '' @ show_int m)
                         v (JStr (''<= '' @ show_int m))]
                 else []
             | None \<Rightarrow> [])
          @ (case exclusiveMaximum c of
               Some m \<Rightarrow>
                 if n \<ge> m
                 then [createError basePath
                         (''Value '' @ show_int n @ '' is not less than '' @ show_int m)
                         v (JStr (''< '' @ show_int m))]
                 else []
             | None \<Rightarrow> [])
          @ (case multipleOf c of
               Some m \<Rightarrow>
                 if m = 0 \<or> n mod m \<noteq> 0
                 then [createError basePath
                         (''Value '' @ show_int n @ '' is not a multiple of '' @ show_int m)
                         v (JStr (''multiple of '' @ show_int m))]
                 else []
             | None \<Rightarrow> [])
      | _ \<Rightarrow> [])"

definition too_short :: "string \<Rightarrow> constraints \<Rightarrow> string \<Rightarrow> ValidationError list" where
  "too_short s c basePath =
     (case minLength c of
        Some m \<Rightarrow>
          if int (length s) < m
          then [createError basePath
                  (''String length '' @ show_nat (length s) @ '' is less than minimum '' @ show_int m)
                  (JNum (int (length s))) (JStr (''>= '' @ show_int m))]
          else []
      | None \<Rightarrow> [])"

definition length_errors :: "json \<Rightarrow> constraints \<Rightarrow> string \<Rightarrow> ValidationError list" where
  "length_errors v c basePath =
     (case v of
        JStr s \<Rightarrow>
          too_short s c basePath
          @ (case maxLength c of
               Some m \<Rightarrow>
                 if int (length s) > m
                 then [createError basePath
                         (''String length '' @ show_nat (length s) @ '' exceeds maximum '' @ show_int m)
                         (JNum (int (length s))) (JStr (''<= '' @ show_int m))]
                 else []
             | None \<Rightarrow> [])
          @ too_short s c basePath
      | _ \<Rightarrow> [])"

definition validatePrimitiveAgainstSchema ::
  "platform \<Rightarrow> json \<Rightarrow> constraints \<Rightarrow> string \<Rightarrow> error + ValidationError list" where
  "validatePrimitiveAgainstSchema P v c basePath =
     (case pattern_errors P v c basePath of
        Inl e \<Rightarrow> Inl e
      | Inr pes \<Rightarrow>
          Inr (enum_errors v c basePath @ const_errors v c basePath @ format_errors P v c basePath
               @ pes @ numeric_errors v c basePath @ length_errors v c basePath))"

text \<open>The checks of \<open>validateArrayAgainstSchema\<close> that stay at the array itself.\<close>

definition item_path :: "string \<Rightarrow> nat \<Rightarrow> string" where
  "item_path basePath i = basePath @ ''['' @ show_nat i @ '']''"

definition size_errors :: "json list \<Rightarrow> constraints \<Rightarrow> string \<Rightarrow> ValidationError list" where
  "size_errors xs c basePath =
     (case minItems c of
        Some m \<Rightarrow>
          if int (length xs) < m
          then [createError basePath
                  (''Array has '' @ show_nat (length xs) @ '' items, minimum required is '' @ show_int m)
                  (JNum (int (length xs))) (JStr (''>= '' @ show_int m))]
          else []
      | None \<Rightarrow> [])
     @ (case maxItems c of
          Some m \<Rightarrow>
            if int (length xs) > m
            then [createError basePath
                    (''Array has '' @ show_nat (length xs) @ '' items, maximum allowed is '' @ show_int m)
                    (JNum (int (length xs))) (JStr (''<= '' @ show_int m))]
            else []
        | None \<Rightarrow> [])"

text \<open>The \<open>uniqueItems\<close> loop: \<open>seen\<close> holds the \<open>JSON.stringify\<close> keys met so far.\<close>

fun duplicate_errors ::
  "string \<Rightarrow> nat \<Rightarrow> string option list \<Rightarrow> json list \<Rightarrow> ValidationError list" where
  "duplicate_errors basePath i seen [] = []"
| "duplicate_errors basePath i seen (x # xs) =
     (if stringify x \<in> set seen
      then [createError (item_path basePath i) ''Duplicate item found'' x (JStr ''unique value'')]
      else [])
     @ duplicate_errors basePath (Suc i) (stringify x # seen) xs"

definition unique_errors :: "json list \<Rightarrow> constraints \<Rightarrow> string \<Rightarrow> ValidationError list" where
  "unique_errors xs c basePath = (if uniqueItems c then duplicate_errors basePath 0 [] xs else [])"

text \<open>The checks of \<open>validateObjectAgainstSchema\<close> that stay at the object itself.\<close>

definition prop_path :: "string \<Rightarrow> string \<Rightarrow> string" where
  "prop_path basePath prop = basePath @ ''.'' @ prop"

definition required_errors ::
  "(string \<times> json) list \<Rightarrow> constraints \<Rightarrow> string \<Rightarrow> ValidationError list" where
  "required_errors al c basePath =
     (case required c of
        Some props \<Rightarrow>
          concat (map (\<lambda>prop.
            if \<not> has_property al prop
            then [createError (prop_path basePath prop)
                    (''Required property '' @ [dquote] @ prop @ [dquote] @ '' is missing'')
                    JUndefined (JStr ''present'')]
            else []) props)
      | None \<Rightarrow> [])"

definition additional_errors ::
  "(string \<times> json) list \<Rightarrow> constraints \<Rightarrow> string list \<Rightarrow> string \<Rightarrow> ValidationError list" where
  "additional_errors al c allowedProps basePath =
     (if additionalProperties c = Some False
      then concat (map (\<lambda>kv.
             if fst kv \<notin> set allowedProps
             then [createError (prop_path basePath (fst kv))
                     (''Additional property '' @ [dquote] @ fst kv @ [dquote] @ '' is not allowed'')
                     (snd kv) (JStr ''undefined'')]
             else []) al)
      else [])"

definition count_errors ::
  "(string \<times> json) list \<Rightarrow> constraints \<Rightarrow> string \<Rightarrow> ValidationError list" where
  "count_errors al c basePath =
     (case minProperties c of
        Some m \<Rightarrow>
          if int (length al) < m
          then [createError basePath
                  (''Object has '' @ show_nat (length al) @ '' properties, minimum required is ''
                     @ show_int m)
                  (JNum (int (length al))) (JStr (''>= '' @ show_int m))]
          else []
      | None \<Rightarrow> [])
     @ (case maxProperties c of
          Some m \<Rightarrow>
            if int (length al) > m
            then [createError basePath
                    (''Object has '' @ show_nat (length al) @ '' properties, maximum allowed is ''
                       @ show_int m)
                    (JNum (int (length al))) (JStr (''<= '' @ show_int m))]
            else []
        | None \<Rightarrow> [])"

text \<open>
  \<open>errors.push(...itemErrors)\<close> over the results of the recursive calls: the first call that
  raises ends the validation.
\<close>

fun gather :: "(error + 'a list) list \<Rightarrow> error + 'a list" where
  "gather [] = Inr []"
| "gather (Inl e # rs) = Inl e"
| "gather (Inr xs # rs) = (case gather rs of Inl e \<Rightarrow> Inl e | Inr ys \<Rightarrow> Inr (xs @ ys))"

text \<open>
  \<open>validateAgainstSchema\<close> with \<open>validateArrayAgainstSchema\<close> and
  \<open>validateObjectAgainstSchema\<close> in place.  A declared property is validated when the object
  has it as an own key; for a declared name that the object only inherits the code validates
  the inherited member, which is not followed here.
\<close>

fun validateAgainstSchema ::
  "platform \<Rightarrow> json \<Rightarrow> schema \<Rightarrow> string \<Rightarrow> error + ValidationError list" where
  "validateAgainstSchema P json (Schema c props its) basePath =
     (if (case expectedTypes c of Some ts \<Rightarrow> getTypeName json \<notin> set ts | None \<Rightarrow> False)
      then Inr [type_error json (case expectedTypes c of Some ts \<Rightarrow> ts | None \<Rightarrow> []) basePath]
      else
        (case json of
           JArr xs ps \<Rightarrow>
             (case gather (case its of
                             Some it \<Rightarrow>
                               map (\<lambda>ix. validateAgainstSchema P (snd ix) it (item_path basePath (fst ix)))
                                 (enumerate 0 xs)
                           | None \<Rightarrow> []) of
                Inl e \<Rightarrow> Inl e
              | Inr item_errors \<Rightarrow>
                  Inr (size_errors xs c basePath @ unique_errors xs c basePath @ item_errors))
         | JObj al \<Rightarrow>
             (case gather (case props of
                             Some ps \<Rightarrow>
                               map (\<lambda>entry.
                                      case map_of al (fst entry) of
                                        Some child \<Rightarrow>
                                          validateAgainstSchema P child (snd entry)
                                            (prop_path basePath (fst entry))
                                      | None \<Rightarrow> Inr []) ps
                           | None \<Rightarrow> []) of
                Inl e \<Rightarrow> Inl e
              | Inr prop_errors \<Rightarrow>
                  Inr (required_errors al c basePath @ prop_errors
                       @ additional_errors al c (case props of Some ps \<Rightarrow> map fst ps | None \<Rightarrow> [])
                           basePath
                       @ count_errors al c basePath))
         | v \<Rightarrow> validatePrimitiveAgainstSchema P v c basePath))"

definition validateSchema :: "platform \<Rightarrow> json \<Rightarrow> schema \<Rightarrow> error + ValidationResult" where
  "validateSchema P json sch =
     (case validateAgainstSchema P json sch [] of
        Inl e \<Rightarrow> Inl e
      | Inr errs \<Rightarrow> Inr \<lparr>valid = (errs = []), errors = errs\<rparr>)"

text \<open>A schema is well formed when every pattern in it compiles.\<close>

fun wf_schema :: "platform \<Rightarrow> schema \<Rightarrow> bool" where
  "wf_schema P (Schema c props its) =
     ((case pattern c of Some pat \<Rightarrow> pat = [] \<or> regex_compiles P pat | None \<Rightarrow> True)
      \<and> (case props of Some ps \<Rightarrow> list_all (\<lambda>entry. wf_schema P (snd entry)) ps | None \<Rightarrow> True)
      \<and> (case its of Some it \<Rightarrow> wf_schema P it | None \<Rightarrow> True))"

text \<open>The schema \<open>{}\<close>.\<close>

definition no_constraints :: constraints where
  "no_constraints =
     \<lparr>stype = None, required = None, minItems = None, maxItems = None, uniqueItems = False,
      minLength = None, maxLength = None, pattern = None, format = None, minimum = None,
      maximum = None, exclusiveMinimum = None, exclusiveMaximum = None, multipleOf = None,
      enum_values = None, const_value = None, additionalProperties = None,
      minProperties = None, maxProperties = None\<rparr>"

text \<open>The errors of a call that returned, and none for one that raised.\<close>

definition errors_of :: "error + 'a list \<Rightarrow> 'a list" where
  "errors_of r = (case r of Inl e \<Rightarrow> [] | Inr xs \<Rightarrow> xs)"

text \<open>A platform for examples: every pattern compiles and none matches.\<close>

definition plain_platform :: platform where
  "plain_platform = \<lparr>regex_compiles = (\<lambda>p. True), regex_test = (\<lambda>p f s. False),
     url_parses = (\<lambda>s. True), date_parses = (\<lambda>s. True)\<rparr>"


section \<open>Merge engine (\<open>json.merge.ts\<close>)\<close>

text \<open>
  \<open>deepClone\<close> rebuilds arrays with \<open>map\<close> and objects entry by entry, so the copy of an
  array has its elements only.  Every entry is copied as an own property; the code's
  assignment \<open>cloned[key] = ...\<close> does so for every key but \<open>__proto__\<close>, for which it
  runs the inherited setter, a case the definition does not follow.
\<close>

fun deepClone :: "json \<Rightarrow> json" where
  "deepClone (JArr xs ps) = JArr (map deepClone xs) []"
| "deepClone (JObj al) = JObj (map (\<lambda>kv. (fst kv, deepClone (snd kv))) al)"
| "deepClone v = v"

fun getValueType :: "json \<Rightarrow> string" where
  "getValueType JNull = ''null''"
| "getValueType (JArr xs ps) = ''array''"
| "getValueType (JObj al) = ''object''"
| "getValueType JUndefined = ''undefined''"
| "getValueType (JBool b) = ''boolean''"
| "getValueType (JNum n) = ''number''"
| "getValueType (JStr s) = ''string''"

text \<open>\<open>Object.keys(v)\<close> and \<open>v[key]\<close> for a string key, on arrays as well as on objects.\<close>

fun own_keys :: "json \<Rightarrow> string list" where
  "own_keys (JArr xs ps) = map show_nat [0..<length xs] @ map fst ps"
| "own_keys (JObj al) = map fst al"
| "own_keys v = []"

fun get_prop :: "json \<Rightarrow> string \<Rightarrow> json" where
  "get_prop (JArr xs ps) k =
     (case find (\<lambda>i. show_nat i = k) [0..<length xs] of
        Some i \<Rightarrow> xs ! i
      | None \<Rightarrow> (case map_of ps k of Some v \<Rightarrow> v | None \<Rightarrow> JUndefined))"
| "get_prop (JObj al) k = (case map_of al k of Some v \<Rightarrow> v | None \<Rightarrow> JUndefined)"
| "get_prop v k = JUndefined"

text \<open>
  The module's own \<open>deepEqual\<close>.  Two arrays are compared by length and position; any other
  two non-null objects, an array and a plain object included, by their keys.
\<close>

function (sequential) deepEqual :: "json \<Rightarrow> json \<Rightarrow> bool" where
  "deepEqual (JArr xs ps) (JArr ys qs) = list_all2 deepEqual xs ys"
| "deepEqual (JArr xs ps) (JObj bl) =
     (length (own_keys (JArr xs ps)) = length bl
      \<and> list_all (\<lambda>ix. show_nat (fst ix) \<in> set (map fst bl)
                        \<and> deepEqual (snd ix) (get_prop (JObj bl) (show_nat (fst ix)))) (enumerate 0 xs)
      \<and> list_all (\<lambda>kv. fst kv \<in> set (map fst bl)
                        \<and> deepEqual (snd kv) (get_prop (JObj bl) (fst kv))) ps)"
| "deepEqual (JObj al) b =
     (if isArray b \<or> isPlainObject b
      then length al = length (own_keys b)
           \<and> list_all (\<lambda>kv. fst kv \<in> set (own_keys b) \<and> deepEqual (snd kv) (get_prop b (fst kv))) al
      else False)"
| "deepEqual a b = (a = b \<and> \<not> isArray a \<and> \<not> isPlainObject a)"
  by pat_completeness auto
termination
proof (relation "measure (\<lambda>p. size (fst p))")
  fix xs :: "json list" and ps :: "(string \<times> json) list" and bl :: "(string \<times> json) list"
    and ix :: "nat \<times> json"
  assume "ix \<in> set (enumerate 0 xs)"
  then have "snd ix \<in> set xs" by (auto simp: in_set_enumerate_eq dest: nth_mem)
  then have "size (snd ix) < size (JArr xs ps)" by (induction xs) auto
  then show "((snd ix, get_prop (JObj bl) (show_nat (fst ix))), JArr xs ps, JObj bl)
               \<in> measure (\<lambda>p. size (fst p))" by simp
next
  fix xs :: "json list" and ps :: "(string \<times> json) list" and bl :: "(string \<times> json) list"
    and kv :: "string \<times> json"
  assume "kv \<in> set ps"
  then have "size (snd kv) < size (JArr xs ps)" by (induction ps) auto
  then show "((snd kv, get_prop (JObj bl) (fst kv)), JArr xs ps, JObj bl)
               \<in> measure (\<lambda>p. size (fst p))" by simp
next
  fix al :: "(string \<times> json) list" and b :: json and kv :: "string \<times> json"
  assume "kv \<in> set al"
  then have "size (snd kv) < size (JObj al)" by (induction al) auto
  then show "((snd kv, get_prop b (fst kv)), JObj al, b) \<in> measure (\<lambda>p. size (fst p))" by simp
next
  fix xs ys :: "json list" and ps qs :: "(string \<times> json) list" and z yb :: json
  assume "z \<in> set xs"
  then have "size z < size (JArr xs ps)" by (induction xs) auto
  then show "((z, yb), JArr xs ps, JArr ys qs) \<in> measure (\<lambda>p. size (fst p))" by simp
qed simp

text \<open>The \<open>union\<close> filter: keep an item unless its \<open>JSON.stringify\<close> key was seen before.\<close>

fun unseen :: "string option list \<Rightarrow> json list \<Rightarrow> json list" where
  "unseen seen [] = []"
| "unseen seen (x # xs) =
     (if stringify x \<in> set seen then unseen seen xs else x # unseen (stringify x # seen) xs)"

record JsonMergeOptions =
  strategy :: "string option"
  arrayStrategy :: "string option"
  conflictStrategy :: "string option"
  customMerge :: "(string \<Rightarrow> json \<Rightarrow> json \<Rightarrow> json) option"
  maxDepth :: "int option"

definition no_options :: JsonMergeOptions where
  "no_options = \<lparr>strategy = None, arrayStrategy = None, conflictStrategy = None,
                  customMerge = None, maxDepth = None\<rparr>"

text \<open>\<open>{...target, ...source}\<close> on the entries of two objects.\<close>

definition spread :: "(string \<times> json) list \<Rightarrow> (string \<times> json) list \<Rightarrow> (string \<times> json) list" where
  "spread tal sal = foldl (\<lambda>acc kv. AList.update (fst kv) (snd kv) acc) tal sal"

lemma size_deepClone: "size (deepClone v) \<le> size v"
proof (induction v rule: deepClone.induct)
  case (1 xs ps)
  have "size_list (size \<circ> deepClone) xs \<le> size_list size xs"
    using 1 by (intro size_list_pointwise) simp
  then show ?case by simp
next
  case (2 al)
  have "size_list (size_prod (\<lambda>x. 0) size \<circ> (\<lambda>kv. (fst kv, deepClone (snd kv)))) al
          \<le> size_list (size_prod (\<lambda>x. 0) size) al"
  proof (intro size_list_pointwise)
    fix kv assume "kv \<in> set al"
    with 2 [of kv] have "size (deepClone (snd kv)) \<le> size (snd kv)" by simp
    then show "(size_prod (\<lambda>x. 0) size \<circ> (\<lambda>kv. (fst kv, deepClone (snd kv)))) kv
                 \<le> size_prod (\<lambda>x. 0) size kv"
      by (cases kv) simp
  qed
  then show ?case by simp
qed simp_all

lemma size_entry: "(k, v) \<in> set al \<Longrightarrow> size v < size (JObj al)"
  by (induction al) auto

lemma size_element: "x \<in> set xs \<Longrightarrow> size x < size (JArr xs ps)"
  by (induction xs) auto

text \<open>
  \<open>deepMergeTwo\<close> and \<open>mergeArrays\<close> call each other (the \<open>deep\<close> array strategy merges two
  objects at the same index with \<open>deepMergeTwo\<close>, which merges arrays with \<open>mergeArrays\<close>).
  The tag says which of the two a call is: \<open>Inl\<close> carries the arguments of
  \<open>deepMergeTwo\<close>, \<open>Inr\<close> those of \<open>mergeArrays\<close>.
\<close>

function (sequential) merge_two_arrays ::
  "(json \<times> json \<times> string option) + (json list \<times> json list \<times> string) \<Rightarrow> error + json" where
  "merge_two_arrays (Inl (target, source, array_strategy)) =
     (if source = JNull \<or> source = JUndefined then Inr target
      else if target = JNull \<or> target = JUndefined then Inr (deepClone source)
      else if getValueType target \<noteq> getValueType source then Inr (deepClone source)
      else
        (case (target, source) of
           (JArr xs ps, JArr ys qs) \<Rightarrow>
             merge_two_arrays (Inr (xs, ys, (case array_strategy of
                                               Some s \<Rightarrow> if s = [] then ''concat'' else s
                                             | None \<Rightarrow> ''concat'')))
         | (JObj tal, JObj sal) \<Rightarrow>
             (case foldl (\<lambda>acc kv.
                      case acc of
                        Inl e \<Rightarrow> Inl e
                      | Inr result \<Rightarrow>
                          (case map_of result (fst kv) of
                             Some tv \<Rightarrow>
                               (case merge_two_arrays (Inl (tv, deepClone (snd kv), array_strategy)) of
                                  Inl e \<Rightarrow> Inl e
                                | Inr r \<Rightarrow> Inr (AList.update (fst kv) r result))
                           | None \<Rightarrow> Inr (AList.update (fst kv) (deepClone (snd kv)) result)))
                    (Inr (map (\<lambda>kv. (fst kv, deepClone (snd kv))) tal)) sal of
                Inl e \<Rightarrow> Inl e
              | Inr result \<Rightarrow> Inr (JObj result))
         | _ \<Rightarrow> Inr (deepClone source)))"
| "merge_two_arrays (Inr (a, b, array_strategy)) =
     (if array_strategy = ''concat'' then Inr (JArr (a @ b) [])
      else if array_strategy = ''union'' then Inr (JArr (unseen [] (a @ b)) [])
      else if array_strategy = ''intersection''
        then Inr (JArr (filter (\<lambda>itemA. list_ex (\<lambda>itemB. deepEqual itemA itemB) b) a) [])
      else if array_strategy = ''replace'' then Inr (JArr b [])
      else if array_strategy = ''deep'' then
        (case foldl (\<lambda>acc i.
                 case acc of
                   Inl e \<Rightarrow> Inl e
                 | Inr result \<Rightarrow>
                     if i \<ge> length a then Inr (result @ [deepClone (b ! i)])
                     else if i \<ge> length b then Inr (result @ [deepClone (a ! i)])
                     else if isPlainObject (a ! i) \<and> isPlainObject (b ! i)
                       then (case merge_two_arrays (Inl (a ! i, b ! i, None)) of
                               Inl e \<Rightarrow> Inl e
                             | Inr r \<Rightarrow> Inr (result @ [r]))
                     else Inr (result @ [deepClone (b ! i)]))
               (Inr []) [0..<max (length a) (length b)] of
           Inl e \<Rightarrow> Inl e
         | Inr result \<Rightarrow> Inr (JArr result []))
      else Inl (JsonMergeError (''Unknown array merge strategy: '' @ array_strategy) [] JUndefined JUndefined))"
  by pat_completeness auto
termination
proof (relation "measure (\<lambda>arg. case arg of
                   Inl (target, source, s) \<Rightarrow> 2 * size source + 1
                 | Inr (a, b, s) \<Rightarrow> 2 * size_list size b)")
  show "wf (measure (\<lambda>arg. case arg of
                   Inl (target, source, s) \<Rightarrow> 2 * size source + 1
                 | Inr (a, b, s) \<Rightarrow> 2 * size_list size b))" by simp
next
  fix target source :: json and array_strategy x y xs ps ys qs
  assume "(x, y) = (target, source)" "x = JArr xs ps" "y = JArr ys qs"
  then show "(Inr (xs, ys, case array_strategy of None \<Rightarrow> ''concat''
                           | Some s \<Rightarrow> if s = [] then ''concat'' else s),
              Inl (target, source, array_strategy))
             \<in> measure (\<lambda>arg. case arg of
                   Inl (target, source, s) \<Rightarrow> 2 * size source + 1
                 | Inr (a, b, s) \<Rightarrow> 2 * size_list size b)"
    by auto
next
  fix target source :: json and array_strategy x y tal sal and acc :: "error + (string \<times> json) list"
    and kv :: "string \<times> json" and result tv
  assume "(x, y) = (target, source)" "y = JObj sal" "kv \<in> set sal"
  then have "size (snd kv) < size source"
    using size_entry [of "fst kv" "snd kv" sal] by simp
  with size_deepClone [of "snd kv"]
  show "(Inl (tv, deepClone (snd kv), array_strategy), Inl (target, source, array_strategy))
          \<in> measure (\<lambda>arg. case arg of
                   Inl (target, source, s) \<Rightarrow> 2 * size source + 1
                 | Inr (a, b, s) \<Rightarrow> 2 * size_list size b)"
    by simp
next
  fix a b :: "json list" and array_strategy :: string and i :: nat
  assume "\<not> length b \<le> i"
  then have "b ! i \<in> set b" by simp
  moreover have "x \<in> set b \<Longrightarrow> size x < size_list size b" for x
    by (induction b) auto
  ultimately have "size (b ! i) < size_list size b" by blast
  then show "(Inl (a ! i, b ! i, None), Inr (a, b, array_strategy))
          \<in> measure (\<lambda>arg. case arg of
                   Inl (target, source, s) \<Rightarrow> 2 * size source + 1
                 | Inr (a, b, s) \<Rightarrow> 2 * size_list size b)"
    by simp
qed

definition deepMergeTwo :: "json \<Rightarrow> json \<Rightarrow> JsonMergeOptions \<Rightarrow> error + json" where
  "deepMergeTwo target source options = merge_two_arrays (Inl (target, source, arrayStrategy options))"

definition mergeArrays :: "json list \<Rightarrow> json list \<Rightarrow> string \<Rightarrow> error + json" where
  "mergeArrays a b array_strategy = merge_two_arrays (Inr (a, b, array_strategy))"

text \<open>The two \<open>switch (conflictStrategy)\<close> statements of \<open>deepMergeRecursive\<close>.\<close>

definition type_conflict :: "string \<Rightarrow> string \<Rightarrow> json \<Rightarrow> json \<Rightarrow> error + json" where
  "type_conflict conflict_strategy path target source =
     (if conflict_strategy = ''target'' then Inr (deepClone target)
      else if conflict_strategy = ''source'' then Inr (deepClone source)
      else if conflict_strategy = ''throw''
        then Inl (JsonMergeError
                    (''Type mismatch at path '' @ [dquote] @ path @ [dquote] @ '': ''
                       @ getValueType target @ '' vs '' @ getValueType source)
                    path target source)
      else if conflict_strategy = ''priority''
        then Inr (if source \<noteq> JNull \<and> source \<noteq> JUndefined then deepClone source
                  else deepClone target)
      else Inr (deepClone source))"

definition value_conflict :: "string \<Rightarrow> string \<Rightarrow> json \<Rightarrow> json \<Rightarrow> error + json" where
  "value_conflict conflict_strategy path target source =
     (if conflict_strategy = ''target'' then Inr target
      else if conflict_strategy = ''source'' then Inr source
      else if conflict_strategy = ''throw''
        then Inl (JsonMergeError
                    (''Value conflict at path '' @ [dquote] @ path @ [dquote] @ '': ''
                       @ js_String target @ '' vs '' @ js_String source)
                    path target source)
      else if conflict_strategy = ''priority''
        then Inr (if source \<noteq> JNull \<and> source \<noteq> JUndefined then source else target)
      else Inr source)"

text \<open>
  \<open>deepMergeRecursive\<close>.  In the deep branch the loop over \<open>Object.entries(source)\<close> asks
  \<open>key in result\<close>; the definition takes that test on the own keys of the accumulated
  object, and visits the entries in the order the document lists them (JavaScript lists
  integer-like keys first).  Names inherited from \<open>Object.prototype\<close> are therefore not
  followed here.
\<close>

function deepMergeRecursive ::
  "json \<Rightarrow> json \<Rightarrow> string \<Rightarrow> string \<Rightarrow> string \<Rightarrow> (string \<Rightarrow> json \<Rightarrow> json \<Rightarrow> json) option \<Rightarrow>
   string \<Rightarrow> int \<Rightarrow> int \<Rightarrow> error + json" where
  "deepMergeRecursive target source merge_strategy array_strategy conflict_strategy custom path
     max_depth depth =
     (if depth > max_depth
      then Inl (JsonMergeError (''Maximum merge depth exceeded: '' @ show_int max_depth) path
                  JUndefined JUndefined)
      else if source = JNull \<or> source = JUndefined then Inr target
      else if target = JNull \<or> target = JUndefined then Inr (deepClone source)
      else if (case custom of Some f \<Rightarrow> f path target source \<noteq> JUndefined | None \<Rightarrow> False)
        then Inr (case custom of Some f \<Rightarrow> f path target source | None \<Rightarrow> JUndefined)
      else if getValueType target \<noteq> getValueType source
        then type_conflict conflict_strategy path target source
      else
        (case (target, source) of
           (JArr xs ps, JArr ys qs) \<Rightarrow> mergeArrays xs ys array_strategy
         | (JObj tal, JObj sal) \<Rightarrow>
             if merge_strategy = ''shallow'' then Inr (JObj (spread tal sal))
             else
               (case foldl (\<lambda>acc kv.
                        case acc of
                          Inl e \<Rightarrow> Inl e
                        | Inr result \<Rightarrow>
                            (case map_of result (fst kv) of
                               Some tv \<Rightarrow>
                                 (case deepMergeRecursive tv (deepClone (snd kv)) merge_strategy
                                         array_strategy conflict_strategy custom
                                         (if path \<noteq> [] then path @ ''.'' @ fst kv else fst kv)
                                         max_depth (depth + 1) of
                                    Inl e \<Rightarrow> Inl e
                                  | Inr r \<Rightarrow> Inr (AList.update (fst kv) r result))
                             | None \<Rightarrow> Inr (AList.update (fst kv) (deepClone (snd kv)) result)))
                      (Inr (map (\<lambda>kv. (fst kv, deepClone (snd kv))) tal)) sal of
                  Inl e \<Rightarrow> Inl e
                | Inr result \<Rightarrow> Inr (JObj result))
         | _ \<Rightarrow> if target \<noteq> source then value_conflict conflict_strategy path target source
                else Inr target))"
  by pat_completeness auto
termination
proof (relation "measure (\<lambda>(target, source, rest). size source)")
  fix target source :: json and merge_strategy array_strategy conflict_strategy :: string
    and custom :: "(string \<Rightarrow> json \<Rightarrow> json \<Rightarrow> json) option" and path :: string
    and max_depth depth :: int and x y :: json and tal sal :: "(string \<times> json) list"
    and acc :: "error + (string \<times> json) list" and kv :: "string \<times> json"
    and result :: "(string \<times> json) list" and tv :: json
  assume "(x, y) = (target, source)" "y = JObj sal" "kv \<in> set sal"
  then have "size (snd kv) < size source"
    using size_entry [of "fst kv" "snd kv" sal] by simp
  with size_deepClone [of "snd kv"]
  show "((tv, deepClone (snd kv), merge_strategy, array_strategy, conflict_strategy, custom,
          if path \<noteq> [] then path @ ''.'' @ fst kv else fst kv, max_depth, depth + 1),
         target, source, merge_strategy, array_strategy, conflict_strategy, custom, path,
         max_depth, depth)
        \<in> measure (\<lambda>(target, source, rest). size source)"
    by simp
qed simp

declare deepMergeRecursive.simps [simp del]

text \<open>\<open>deepMerge\<close>: the defaults of the options, then the recursion on the two clones.\<close>

definition option_or :: "'a option \<Rightarrow> 'a \<Rightarrow> 'a" where
  "option_or v d = (case v of Some x \<Rightarrow> x | None \<Rightarrow> d)"

definition deepMerge :: "json \<Rightarrow> json \<Rightarrow> JsonMergeOptions \<Rightarrow> error + json" where
  "deepMerge target source options =
     deepMergeRecursive (deepClone target) (deepClone source)
       (option_or (strategy options) ''deep'')
       (option_or (arrayStrategy options) ''concat'')
       (option_or (conflictStrategy options) ''source'')
       (customMerge options) [] (option_or (maxDepth options) 100) 0"

text \<open>
  \<open>mergeWithPriority\<close>.  Its accumulator is declared \<open>const result\<close> and then assigned in the
  loop.  Where the build keeps \<open>const\<close> (an ES2015 or later target) the first assignment
  raises \<open>TypeError\<close>, after the merge on its right-hand side has run; where the build
  lowers \<open>const\<close> to \<open>var\<close> the loop runs as written.  \<open>const_kept\<close> says which.
\<close>

fun priority_loop :: "bool \<Rightarrow> json \<Rightarrow> json list \<Rightarrow> error + json" where
  "priority_loop const_kept result [] = Inr result"
| "priority_loop const_kept result (obj # objs) =
     (case deepMergeRecursive result obj ''deep'' ''concat'' ''priority'' None [] 100 0 of
        Inl e \<Rightarrow> Inl e
      | Inr r \<Rightarrow> if const_kept then Inl TypeError else priority_loop const_kept r objs)"

definition mergeWithPriority :: "bool \<Rightarrow> json list \<Rightarrow> error + json" where
  "mergeWithPriority const_kept objects =
     (case objects of
        [] \<Rightarrow> Inr (JObj [])
      | [obj] \<Rightarrow> Inr (deepClone obj)
      | obj # objs \<Rightarrow> priority_loop const_kept (deepClone obj) objs)"

text \<open>
  Two sides disagree at a location when both are present (neither \<open>null\<close> nor
  \<open>undefined\<close>) and they have different types, or are unequal primitives of one type.
\<close>

definition disagree :: "json \<Rightarrow> json \<Rightarrow> bool" where
  "disagree target source =
     (target \<noteq> JNull \<and> target \<noteq> JUndefined \<and> source \<noteq> JNull \<and> source \<noteq> JUndefined
      \<and> (getValueType target \<noteq> getValueType source
           \<or> (target \<noteq> source \<and> getValueType target \<in> {''boolean'', ''number'', ''string''})))"

text \<open>
  A location of a document is named by the keys leading to it through nested objects;
  the merge reports it as those keys joined by dots, which is how \<open>deepMergeRecursive\<close>
  extends its path argument (\<open>path ? `${path}.${key}` : key\<close>).  Arrays are not entered:
  the merge hands them to \<open>mergeArrays\<close>, which compares nothing.
\<close>

definition extend_path :: "string \<Rightarrow> string \<Rightarrow> string" where
  "extend_path path key = (if path \<noteq> [] then path @ ''.'' @ key else key)"

fun at_keys :: "json \<Rightarrow> string list \<Rightarrow> json option" where
  "at_keys v [] = Some v"
| "at_keys (JObj al) (k # ks) = (case map_of al k of Some c \<Rightarrow> at_keys c ks | None \<Rightarrow> None)"
| "at_keys v (k # ks) = None"

definition disagree_at :: "json \<Rightarrow> json \<Rightarrow> string list \<Rightarrow> bool" where
  "disagree_at target source ks =
     (case (at_keys target ks, at_keys source ks) of
        (Some tv, Some sv) \<Rightarrow> disagree tv sv
      | _ \<Rightarrow> False)"

text \<open>
  \<open>levels\<close> counts how deep objects nest inside objects, the quantity the \<open>maxDepth\<close>
  option bounds: past that depth the merge raises its depth error, which names no values.
\<close>

fun levels :: "json \<Rightarrow> nat" where
  "levels (JObj al) = Suc (foldr (\<lambda>kv m. max (levels (snd kv)) m) al 0)"
| "levels v = 0"

text \<open>
  A document is \<open>proper\<close> when it is one a JavaScript object literal of data can be: no
  object lists a key twice, and no key is a name every object inherits from
  \<open>Object.prototype\<close>.  On such documents \<open>key in result\<close> is the test for an own key, and
  the assignment \<open>cloned[key] = ...\<close> of \<open>deepClone\<close> creates an own property (for the key
  \<open>__proto__\<close> it would run the inherited setter instead).
\<close>

fun proper :: "json \<Rightarrow> bool" where
  "proper (JObj al) =
     (distinct (map fst al)
      \<and> list_all (\<lambda>kv. fst kv \<notin> set prototype_names \<and> proper (snd kv)) al)"
| "proper (JArr xs ps) = list_all proper xs"
| "proper v = True"

text \<open>The array strategies \<open>mergeArrays\<close> has a case for; any other name makes it raise.\<close>

definition known_array_strategies :: "string list" where
  "known_array_strategies = [''concat'', ''union'', ''intersection'', ''replace'', ''deep'']"

text \<open>
  One round of the loop over \<open>Object.entries(source)\<close> in the deep branch of
  \<open>deepMergeRecursive\<close>, with the recursive call abstracted as \<open>rec\<close>; and what an error
  raised by a merge started at \<open>path\<close> says: it carries the path of a location below, and
  the two values found there, which disagree.
\<close>

definition merge_step ::
  "(string \<Rightarrow> json \<Rightarrow> json \<Rightarrow> error + json) \<Rightarrow> error + (string \<times> json) list \<Rightarrow> string \<times> json \<Rightarrow>
   error + (string \<times> json) list" where
  "merge_step rec acc kv =
     (case acc of
        Inl e \<Rightarrow> Inl e
      | Inr result \<Rightarrow>
          (case map_of result (fst kv) of
             Some tv \<Rightarrow>
               (case rec (fst kv) tv (deepClone (snd kv)) of
                  Inl e \<Rightarrow> Inl e
                | Inr r \<Rightarrow> Inr (AList.update (fst kv) r result))
           | None \<Rightarrow> Inr (AList.update (fst kv) (deepClone (snd kv)) result)))"

definition raised_at :: "error \<Rightarrow> string \<Rightarrow> json \<Rightarrow> json \<Rightarrow> bool" where
  "raised_at e path target source =
     (\<exists>msg ks tv sv. e = JsonMergeError msg (foldl extend_path path ks) tv sv
        \<and> at_keys target ks = Some tv \<and> at_keys source ks = Some sv \<and> disagree tv sv)"

section \<open>Compare engine (\<open>json.compare.ts\<close>)\<close>

record JsonDifference =
  d_path :: string
  d_type :: string
  d_valueA :: json
  d_valueB :: json
  d_detail :: "string option"

text \<open>\<open>similarity\<close> is a quotient of two counts; it is kept as a rational number.\<close>

record JsonCompareResult =
  c_equal :: bool
  c_differences :: "JsonDifference list"
  c_similarity :: rat

fun getType :: "json \<Rightarrow> string" where
  "getType JNull = ''null''"
| "getType (JArr xs ps) = ''array''"
| "getType (JObj al) = ''object''"
| "getType JUndefined = ''undefined''"
| "getType (JBool b) = ''boolean''"
| "getType (JNum n) = ''number''"
| "getType (JStr s) = ''string''"

text \<open>The keys of \<open>new Set([...Object.keys(a), ...Object.keys(b)])\<close>, in iteration order.\<close>

fun first_occurrences :: "'a list \<Rightarrow> 'a list \<Rightarrow> 'a list" where
  "first_occurrences seen [] = []"
| "first_occurrences seen (x # xs) =
     (if x \<in> set seen then first_occurrences seen xs else x # first_occurrences (x # seen) xs)"

definition difference :: "string \<Rightarrow> string \<Rightarrow> json \<Rightarrow> json \<Rightarrow> JsonDifference" where
  "difference path kind a b =
     \<lparr>d_path = path, d_type = kind, d_valueA = a, d_valueB = b, d_detail = None\<rparr>"

text \<open>
  \<open>deepCompare\<close> with \<open>compareArrays\<close> and \<open>compareObjects\<close> in place.  The result is the
  returned boolean and the differences the call pushes, in order.  \<open>compareObjects\<close> asks
  \<open>key in a\<close> and \<open>key in b\<close>; the definition takes both tests on the own keys, so a key
  named like a member of \<open>Object.prototype\<close> is not followed here.
\<close>

function deepCompare :: "json \<Rightarrow> json \<Rightarrow> string \<Rightarrow> bool \<times> JsonDifference list" where
  "deepCompare a b path =
     (if getType a \<noteq> getType b
      then (False, [\<lparr>d_path = path, d_type = ''type-mismatch'', d_valueA = a, d_valueB = b,
                     d_detail = Some (''Type A: '' @ getType a @ '', Type B: '' @ getType b)\<rparr>])
      else if a = JNull \<or> b = JNull \<or> a = JUndefined \<or> b = JUndefined
        then (if a \<noteq> b then (False, [difference path ''value-mismatch'' a b]) else (True, []))
      else
        (case (a, b) of
           (JArr xs ps, JArr ys qs) \<Rightarrow>
             (let results = map (\<lambda>i.
                     if i \<ge> length xs
                       then (False, [difference (path @ ''['' @ show_nat i @ '']'') ''missing-in-a''
                                       JUndefined (ys ! i)])
                     else if i \<ge> length ys
                       then (False, [difference (path @ ''['' @ show_nat i @ '']'') ''missing-in-b''
                                       (xs ! i) JUndefined])
                     else deepCompare (xs ! i) (ys ! i) (path @ ''['' @ show_nat i @ '']''))
                   [0..<max (length xs) (length ys)]
              in (length xs = length ys \<and> list_all fst results,
                  (if length xs \<noteq> length ys
                   then [difference path ''length-mismatch'' (JNum (int (length xs)))
                           (JNum (int (length ys)))]
                   else [])
                  @ concat (map snd results)))
         | (JObj al, JObj bl) \<Rightarrow>
             (let results = map (\<lambda>key.
                     case map_of al key of
                       None \<Rightarrow>
                         (False, [difference (if path \<noteq> [] then path @ ''.'' @ key else key)
                                    ''missing-in-a'' JUndefined (get_slot (JObj bl) (AtKey key))])
                     | Some av \<Rightarrow>
                         (case map_of bl key of
                            None \<Rightarrow>
                              (False, [difference (if path \<noteq> [] then path @ ''.'' @ key else key)
                                         ''missing-in-b'' av JUndefined])
                          | Some bv \<Rightarrow>
                              deepCompare av bv (if path \<noteq> [] then path @ ''.'' @ key else key)))
                   (first_occurrences [] (map fst al @ map fst bl))
              in (list_all fst results, concat (map snd results)))
         | _ \<Rightarrow> if a \<noteq> b then (False, [difference path ''value-mismatch'' a b]) else (True, [])))"
  by pat_completeness auto
termination
proof (relation "measure (\<lambda>(a, b, path). size a)")
  fix a b :: json and path :: string and x y :: json and xs ys :: "json list"
    and ps qs :: "(string \<times> json) list" and i :: nat
  assume "(x, y) = (a, b)" "x = JArr xs ps" "\<not> length xs \<le> i"
  then have "size (xs ! i) < size a"
    using size_element [of "xs ! i" xs ps] by auto
  then show "((xs ! i, ys ! i, path @ ''['' @ show_nat i @ '']''), a, b, path)
               \<in> measure (\<lambda>(a, b, path). size a)"
    by simp
next
  fix a b :: json and path :: string and x y :: json and al bl :: "(string \<times> json) list"
    and key :: string and av bv :: json
  assume "(x, y) = (a, b)" "x = JObj al" "map_of al key = Some av"
  then have "size av < size a"
    using size_entry [of key av al] by (auto dest: map_of_SomeD)
  then show "((av, bv, if path \<noteq> [] then path @ ''.'' @ key else key), a, b, path)
               \<in> measure (\<lambda>(a, b, path). size a)"
    by simp
qed simp

declare deepCompare.simps [simp del]

text \<open>The compare module's \<open>deepEqual\<close>: \<open>deepCompare(a, b)\<close> with the differences dropped.\<close>

definition deepEqual_compare :: "json \<Rightarrow> json \<Rightarrow> bool" where
  "deepEqual_compare a b = fst (deepCompare a b [])"

text \<open>
  \<open>compareArraysUnordered\<close>.  The inner loop looks for the first \<open>j\<close> with
  \<open>deepEqual(a[i], bCopy[j])\<close> and splices it out; \<open>None\<close> is \<open>foundMatch = false\<close>.
\<close>

function inner_loop :: "json \<Rightarrow> json list \<Rightarrow> nat \<Rightarrow> json list option" where
  "inner_loop x bCopy j =
     (if j < length bCopy
      then (if deepEqual_compare x (bCopy ! j)
            then Some (take j bCopy @ drop (Suc j) bCopy)
            else inner_loop x bCopy (Suc j))
      else None)"
  by pat_completeness auto
termination
  by (relation "measure (\<lambda>(x, bCopy, j). length bCopy - j)") auto

declare inner_loop.simps [simp del]

text \<open>The outer loop from index \<open>i\<close> on: \<open>bCopy\<close>, \<open>matches\<close> and the differences pushed.\<close>

record match_state =
  bCopy :: "json list"
  matches :: nat
  pushed :: "JsonDifference list"

fun outer_loop :: "nat \<Rightarrow> json list \<Rightarrow> match_state \<Rightarrow> match_state" where
  "outer_loop i [] st = st"
| "outer_loop i (x # xs) st =
     (case inner_loop x (bCopy st) 0 of
        Some rest \<Rightarrow> outer_loop (Suc i) xs (st\<lparr>bCopy := rest, matches := Suc (matches st)\<rparr>)
      | None \<Rightarrow>
          outer_loop (Suc i) xs
            (st\<lparr>pushed := pushed st @ [difference (''['' @ show_nat i @ '']'') ''missing-element''
                                          x JUndefined]\<rparr>))"

definition compareArraysUnordered :: "json \<Rightarrow> json \<Rightarrow> error + JsonCompareResult" where
  "compareArraysUnordered a b =
     (case (a, b) of
        (JArr xs ps, JArr ys qs) \<Rightarrow>
          if length xs \<noteq> length ys
          then Inr \<lparr>c_equal = False,
                    c_differences = [difference [] ''length-mismatch'' (JNum (int (length xs)))
                                       (JNum (int (length ys)))],
                    c_similarity = 0\<rparr>
          else
            (let st = outer_loop 0 xs \<lparr>bCopy = ys, matches = 0, pushed = []\<rparr>;
                 differences = pushed st
                               @ map (\<lambda>extra. difference [] ''extra-element'' JUndefined extra) (bCopy st)
             in Inr \<lparr>c_equal = (differences = []),
                      c_differences = differences,
                      c_similarity = (if length xs > 0
                                      then of_nat (matches st) / of_nat (length xs) else 1)\<rparr>)
      | _ \<Rightarrow> Inl (JsonCompareError ''Both arguments must be arrays''))"

section \<open>Generate engine (\<open>json.generator.ts\<close>)\<close>

text \<open>
  What the model takes as given.  \<open>processTemplateDirective\<close> has nine \<open>case\<close> labels; their
  bodies read the clock, the random generator, \<open>eval\<close> and caller-supplied functions, and
  \<open>processTemplateString\<close> runs a regular expression.  Each is a parameter here, a function
  of the directive (or the string), the data and the two options it is passed, so that
  what is proved holds whatever they compute.  \<open>validateJson_valid\<close> is the \<open>valid\<close> flag of
  \<open>validateJson(result, validationSchema || {})\<close>, \<open>message_of\<close> is \<open>error.message\<close>.
\<close>

record generator_parts =
  processTemplateString :: "string \<Rightarrow> json \<Rightarrow> bool \<Rightarrow> json \<Rightarrow> error + json"
  case_ref :: "json \<Rightarrow> json \<Rightarrow> bool \<Rightarrow> json \<Rightarrow> error + json"
  case_array :: "json \<Rightarrow> json \<Rightarrow> bool \<Rightarrow> json \<Rightarrow> error + json"
  case_object :: "json \<Rightarrow> json \<Rightarrow> bool \<Rightarrow> json \<Rightarrow> error + json"
  case_switch :: "json \<Rightarrow> json \<Rightarrow> bool \<Rightarrow> json \<Rightarrow> error + json"
  case_transform :: "json \<Rightarrow> json \<Rightarrow> bool \<Rightarrow> json \<Rightarrow> error + json"
  case_concat :: "json \<Rightarrow> json \<Rightarrow> bool \<Rightarrow> json \<Rightarrow> error + json"
  case_math :: "json \<Rightarrow> json \<Rightarrow> bool \<Rightarrow> json \<Rightarrow> error + json"
  case_date :: "json \<Rightarrow> json \<Rightarrow> bool \<Rightarrow> json \<Rightarrow> error + json"
  case_random :: "json \<Rightarrow> json \<Rightarrow> bool \<Rightarrow> json \<Rightarrow> error + json"
  validateJson_valid :: "json \<Rightarrow> bool"
  message_of :: "error \<Rightarrow> string"

record JsonGeneratorOptions =
  strict :: bool
  defaultValue :: json
  validate :: bool
  onError :: string

text \<open>The defaults of the destructuring in \<open>generateJson\<close>.\<close>

definition default_generator_options :: JsonGeneratorOptions where
  "default_generator_options =
     \<lparr>strict = False, defaultValue = JNull, validate = False, onError = ''throw''\<rparr>"

fun deepCloneTemplate :: "json \<Rightarrow> json" where
  "deepCloneTemplate (JArr xs ps) = JArr (map deepCloneTemplate xs) []"
| "deepCloneTemplate (JObj al) = JObj (map (\<lambda>kv. (fst kv, deepCloneTemplate (snd kv))) al)"
| "deepCloneTemplate v = v"

text \<open>JavaScript truthiness, for \<open>if (template.$type)\<close>.\<close>

fun truthy :: "json \<Rightarrow> bool" where
  "truthy JUndefined = False"
| "truthy JNull = False"
| "truthy (JBool b) = b"
| "truthy (JNum n) = (n \<noteq> 0)"
| "truthy (JStr s) = (s \<noteq> [])"
| "truthy v = True"

text \<open>
  The \<open>switch (type)\<close> of \<open>processTemplateDirective\<close>: nine labels and the \<open>default\<close>, which
  raises.
\<close>

definition processTemplateDirective ::
  "generator_parts \<Rightarrow> json \<Rightarrow> json \<Rightarrow> bool \<Rightarrow> json \<Rightarrow> error + json" where
  "processTemplateDirective G directive data strict_opt default_opt =
     (let type = get_slot directive (AtKey ''$type'') in
      if type = JStr ''ref'' then case_ref G directive data strict_opt default_opt
      else if type = JStr ''array'' then case_array G directive data strict_opt default_opt
      else if type = JStr ''object'' then case_object G directive data strict_opt default_opt
      else if type = JStr ''switch'' then case_switch G directive data strict_opt default_opt
      else if type = JStr ''transform'' then case_transform G directive data strict_opt default_opt
      else if type = JStr ''concat'' then case_concat G directive data strict_opt default_opt
      else if type = JStr ''math'' then case_math G directive data strict_opt default_opt
      else if type = JStr ''date'' then case_date G directive data strict_opt default_opt
      else if type = JStr ''random'' then case_random G directive data strict_opt default_opt
      else Inl (JsonGeneratorError (''Unknown template directive: '' @ js_String type) directive
                  JUndefined))"

fun processTemplate ::
  "generator_parts \<Rightarrow> json \<Rightarrow> json \<Rightarrow> bool \<Rightarrow> json \<Rightarrow> error + json" where
  "processTemplate G (JStr s) data strict_opt default_opt =
     processTemplateString G s data strict_opt default_opt"
| "processTemplate G (JArr xs ps) data strict_opt default_opt =
     (case gather (map (\<lambda>item. map_sum id (\<lambda>r. [r])
                                 (processTemplate G item data strict_opt default_opt)) xs) of
        Inl e \<Rightarrow> Inl e
      | Inr processed \<Rightarrow> Inr (JArr processed []))"
| "processTemplate G (JObj al) data strict_opt default_opt =
     (if truthy (get_slot (JObj al) (AtKey ''$type''))
      then processTemplateDirective G (JObj al) data strict_opt default_opt
      else
        (case foldl (\<lambda>acc kv.
                 case acc of
                   Inl e \<Rightarrow> Inl e
                 | Inr result \<Rightarrow>
                     (case processTemplate G (snd kv) data strict_opt default_opt of
                        Inl e \<Rightarrow> Inl e
                      | Inr r \<Rightarrow> Inr (AList.update (fst kv) r result)))
               (Inr []) al of
           Inl e \<Rightarrow> Inl e
         | Inr result \<Rightarrow> Inr (JObj result)))"
| "processTemplate G v data strict_opt default_opt = Inr v"

text \<open>
  \<open>generateJson\<close>: the \<open>try\<close> block, then the \<open>catch\<close>.  \<open>data\<close> is \<open>None\<close> when the caller
  passes none.
\<close>

definition generate_try ::
  "generator_parts \<Rightarrow> json \<Rightarrow> json option \<Rightarrow> JsonGeneratorOptions \<Rightarrow> error + json" where
  "generate_try G template data options =
     (case (case data of
              Some d \<Rightarrow> processTemplate G (deepCloneTemplate template) d (strict options)
                          (defaultValue options)
            | None \<Rightarrow> Inr (deepCloneTemplate template)) of
        Inl e \<Rightarrow> Inl e
      | Inr result \<Rightarrow>
          if validate options \<and> \<not> validateJson_valid G result \<and> strict options
          then Inl (JsonGeneratorError ''Generated JSON failed validation'' template
                      (case data of Some d \<Rightarrow> d | None \<Rightarrow> JUndefined))
          else Inr result)"

definition generateJson ::
  "generator_parts \<Rightarrow> json \<Rightarrow> json option \<Rightarrow> JsonGeneratorOptions \<Rightarrow> error + json" where
  "generateJson G template data options =
     (case generate_try G template data options of
        Inr result \<Rightarrow> Inr result
      | Inl err \<Rightarrow>
          if onError options = ''throw'' then
            (case err of
               JsonGeneratorError m t d \<Rightarrow> Inl err
             | other \<Rightarrow>
                 Inl (JsonGeneratorError (''Failed to generate JSON: '' @ message_of G err) template
                        (case data of Some d \<Rightarrow> d | None \<Rightarrow> JUndefined)))
          else if onError options = ''default'' then Inr (defaultValue options)
          else Inr template)"

text \<open>The template \<open>{$type: 'literal', $value: v}\<close>.\<close>

definition literal_directive :: "json \<Rightarrow> json" where
  "literal_directive v = JObj [(''$type'', JStr ''literal''), (''$value'', v)]"

text \<open>
  The matching as the design words it: for each element of \<open>a\<close> in turn, the first
  deep-equal element still in the pool is taken out of the pool; an element that finds
  none is unmatched (kept with its index), and what stays in the pool is left over.
\<close>

fun remove_first :: "('a \<Rightarrow> bool) \<Rightarrow> 'a list \<Rightarrow> 'a list option" where
  "remove_first p [] = None"
| "remove_first p (y # ys) =
     (if p y then Some ys else map_option (\<lambda>rest. y # rest) (remove_first p ys))"

fun greedy_match :: "nat \<Rightarrow> json list \<Rightarrow> json list \<Rightarrow> (nat \<times> json) list \<times> json list" where
  "greedy_match i [] pool = ([], pool)"
| "greedy_match i (x # xs) pool =
     (case remove_first (deepEqual_compare x) pool of
        Some rest \<Rightarrow> greedy_match (Suc i) xs rest
      | None \<Rightarrow> (case greedy_match (Suc i) xs pool of (unmatched, leftover) \<Rightarrow> ((i, x) # unmatched, leftover)))"

section \<open>Properties of the path engine\<close>

subsection \<open>Reads leave the caller's value alone\<close>

lemma null_step_read_only:
  "tree (step_state (null_step e False done seg n1 n2 st)) = tree st \<and>
   detached (step_state (null_step e False done seg n1 n2 st)) = detached st"
  by (simp add: null_step_def Let_def)

lemma array_step_read_only:
  "tree (step_state (array_step e False seg xs st)) = tree st \<and>
   detached (step_state (array_step e False seg xs st)) = detached st"
  by (simp add: array_step_def Let_def split: segment.splits)

lemma object_step_read_only:
  "tree (step_state (object_step e False seg n1 n2 al st)) = tree st \<and>
   detached (step_state (object_step e False seg n1 n2 al st)) = detached st"
  by (simp add: object_step_def Let_def split: segment.splits)

lemma primitive_step_read_only:
  "tree (step_state (primitive_step False seg n1 st)) = tree st \<and>
   detached (step_state (primitive_step False seg n1 st)) = detached st"
  by (simp add: primitive_step_def)

lemma loop_body_read_only:
  "tree (step_state (loop_body e False done seg n1 n2 st)) = tree st \<and>
   detached (step_state (loop_body e False done seg n1 n2 st)) = detached st"
proof (cases "null_step e False done seg n1 n2 st")
  case (Throw x st')
  with null_step_read_only [of e "done" seg n1 n2 st] show ?thesis
    by (simp add: loop_body_def)
next
  case (Break st')
  with null_step_read_only [of e "done" seg n1 n2 st] show ?thesis
    by (simp add: loop_body_def)
next
  case (Continue st')
  with null_step_read_only [of e "done" seg n1 n2 st]
  have same: "tree st' = tree st" "detached st' = detached st" by simp_all
  let ?st2 = "st'\<lparr>parent := Some (cur st'), parentKey := seg\<rparr>"
  have s2: "tree ?st2 = tree st" "detached ?st2 = detached st" using same by simp_all
  show ?thesis
    using Continue s2 array_step_read_only [of e seg _ ?st2]
      object_step_read_only [of e seg n1 n2 _ ?st2] primitive_step_read_only [of seg n1 ?st2]
    by (simp add: loop_body_def Let_def split: json.splits)
qed

lemma traverse_read_only:
  "traverse e False done segs st = r \<Longrightarrow>
   (case r of Inl (err, st') \<Rightarrow> tree st' = tree st \<and> detached st' = detached st
            | Inr st' \<Rightarrow> tree st' = tree st \<and> detached st' = detached st)"
proof (induction segs arbitrary: st "done" r)
  case Nil
  then show ?case by auto
next
  case (Cons seg rest)
  let ?b = "loop_body e False done seg (nth_opt rest 0) (nth_opt rest 1) st"
  have same: "tree (step_state ?b) = tree st" "detached (step_state ?b) = detached st"
    using loop_body_read_only [of e "done" seg "nth_opt rest 0" "nth_opt rest 1" st] by simp_all
  show ?case
  proof (cases ?b)
    case (Throw x st')
    with Cons.prems same show ?thesis by auto
  next
    case (Break st')
    with Cons.prems same show ?thesis by auto
  next
    case (Continue st')
    with Cons.prems have "traverse e False (done @ [seg]) rest st' = r" by simp
    from Cons.IH [OF this] Continue same show ?thesis
      by (auto split: sum.splits prod.splits)
  qed
qed

lemma finish_read_only:
  "arg_after (finish json \<lparr>create = False, deleteFlag = False, newValue = JUndefined\<rparr> st) = caller_view json st"
  by (simp add: finish_def)

lemma jsonPath_read_only:
  "arg_after (jsonPath json expression \<lparr>create = False, deleteFlag = False, newValue = JUndefined\<rparr>) = json"
proof (cases "parsePathExpression expression")
  case (Inl e)
  then show ?thesis by (simp add: jsonPath_def)
next
  case (Inr segs)
  let ?init = "\<lparr>tree = json, detached = False, cur = [], parent = None, parentKey = SKey [],
                 exists = True\<rparr>"
  show ?thesis
  proof (cases "segs = []")
    case True
    with Inr show ?thesis by (simp add: jsonPath_def)
  next
    case False
    show ?thesis
    proof (cases "traverse expression False [] segs ?init")
      case (Inl a)
      obtain err st' where a: "a = (err, st')" by (cases a)
      from traverse_read_only [OF Inl] a have "tree st' = json" "\<not> detached st'" by simp_all
      with Inl a Inr False show ?thesis by (simp add: jsonPath_def caller_view_def)
    next
      case (Inr st')
      from traverse_read_only [OF Inr] have "tree st' = json" "\<not> detached st'" by simp_all
      with Inr \<open>parsePathExpression expression = Inr segs\<close> False show ?thesis
        by (simp add: jsonPath_def finish_read_only caller_view_def)
    qed
  qed
qed

text \<open>
  Claim C2, as the code has it.  A call that only reads (\<open>jsonPath\<close> with none of \<open>create\<close>,
  \<open>delete\<close>, \<open>value\<close>; \<open>getValue\<close>; \<open>hasPath\<close>) leaves the caller's value exactly as it
  was, for every value and every path expression, also when the call raises.
\<close>

theorem read_leaves_argument:
  "arg_after (jsonPath json expression default_options) = json \<and>
   arg_after (getValue json expression) = json \<and>
   arg_after (hasPath json expression) = json"
  by (simp add: getValue_def hasPath_def default_options_def jsonPath_read_only Let_def)

theorem read_leaves_argument_witness:
  "arg_after (jsonPath (JObj [(''a'', JArr [JNum 1, JNull] [])]) ''a[1].b'' default_options)
     = JObj [(''a'', JArr [JNum 1, JNull] [])] \<and>
   arg_after (getValue (JObj [(''a'', JArr [JNum 1, JNull] [])]) ''a[1].b'')
     = JObj [(''a'', JArr [JNum 1, JNull] [])] \<and>
   arg_after (hasPath (JObj [(''a'', JArr [JNum 1, JNull] [])]) ''a[1].b'')
     = JObj [(''a'', JArr [JNum 1, JNull] [])]"
  using read_leaves_argument [of "JObj [(''a'', JArr [JNum 1, JNull] [])]" "''a[1].b''"] by simp

text \<open>
  Claim C2 as stated fails for the writing wrappers: \<open>setValue\<close> assigns through the
  references into the value it was given.  After \<open>setValue({a: 1}, 'a', 2)\<close> the caller's
  object is \<open>{a: 2}\<close>.
\<close>

theorem setValue_writes_into_argument:
  "arg_after (setValue (JObj [(''a'', JNum 1)]) ''a'' (JNum 2)) \<noteq> JObj [(''a'', JNum 1)]"
  by code_simp

subsection \<open>Writing, then reading\<close>

text \<open>
  Claim C1 at the design's own create scenario, \<open>setValue({}, 'a.b[0].c', 5)\<close>, which should
  leave \<open>{a: {b: [{c: 5}]}}\<close> so that reading \<open>a.b[0].c\<close> gives back \<open>5\<close>.  When the engine
  creates the missing \<open>a\<close> it picks the container by \<open>createDefaultValue(segments[i + 1],
  segments[i + 2])\<close>, that is by the segment after the next one: \<open>a\<close> becomes an array because
  \<open>0\<close> is a number, and the step to \<open>b\<close> raises.  The write is half done, \<open>{a: []}\<close>, and
  there is nothing to read back.

  A write at a negative index goes astray as well: the traversal counts \<open>-1\<close> from the end,
  the final assignment uses the segment itself, so \<open>setValue([1, 2], '[-1]', 9)\<close> stores
  \<open>9\<close> under the property \<open>-1\<close> and reading \<open>[-1]\<close> still gives \<open>2\<close>.
\<close>

theorem create_scenario_raises:
  "parsePathExpression ''a.b[0].c'' = Inr [SKey ''a'', SKey ''b'', SIdx 0, SKey ''c''] \<and>
   setValue (JObj []) ''a.b[0].c'' (JNum 5)
     = \<lparr>arg_after = JObj [(''a'', JArr [] [])],
        outcome = Inl (JsonPathError ''Expected array index, got: b'' ''a.b[0].c'')\<rparr> \<and>
   setValue (JArr [JNum 1, JNum 2] []) ''[-1]'' (JNum 9)
     = \<lparr>arg_after = JArr [JNum 1, JNum 2] [(''-1'', JNum 9)],
        outcome = Inr (JArr [JNum 1, JNum 2] [(''-1'', JNum 9)])\<rparr> \<and>
   outcome (getValue (JArr [JNum 1, JNum 2] [(''-1'', JNum 9)]) ''[-1]'') = Inr (JNum 2)"
  by code_simp

subsection \<open>The empty path\<close>

text \<open>
  Claim C10.  The empty expression parses to no segments, and \<open>jsonPath\<close> returns before it
  looks at the options: the result is the value itself with no parent, the key \<open>''\<close> and
  \<open>exists\<close> set, and nothing is deleted or assigned.  So \<open>setValue(json, '', v)\<close> returns
  \<open>json\<close> unchanged and \<open>deleteValue(json, '')\<close> deletes nothing.
\<close>

theorem empty_path_is_identity:
  "jsonPath json [] options =
     \<lparr>arg_after = json,
      outcome = Inr \<lparr>rvalue = json, rparent = None, rkey = SKey [], rexists = True, rtarget = json\<rparr>\<rparr> \<and>
   setValue json [] v = \<lparr>arg_after = json, outcome = Inr json\<rparr> \<and>
   deleteValue json [] = \<lparr>arg_after = json, outcome = Inr json\<rparr>"
  by (simp add: jsonPath_def setValue_def deleteValue_def parsePathExpression_def)

theorem empty_path_is_identity_witness:
  "jsonPath (JObj [(''a'', JNum 1)]) [] \<lparr>create = True, deleteFlag = True, newValue = JNum 7\<rparr> =
     \<lparr>arg_after = JObj [(''a'', JNum 1)],
      outcome = Inr \<lparr>rvalue = JObj [(''a'', JNum 1)], rparent = None, rkey = SKey [],
                      rexists = True, rtarget = JObj [(''a'', JNum 1)]\<rparr>\<rparr> \<and>
   setValue (JObj [(''a'', JNum 1)]) [] (JNum 7) =
     \<lparr>arg_after = JObj [(''a'', JNum 1)], outcome = Inr (JObj [(''a'', JNum 1)])\<rparr> \<and>
   deleteValue (JObj [(''a'', JNum 1)]) [] =
     \<lparr>arg_after = JObj [(''a'', JNum 1)], outcome = Inr (JObj [(''a'', JNum 1)])\<rparr>"
  using empty_path_is_identity
    [of "JObj [(''a'', JNum 1)]" "\<lparr>create = True, deleteFlag = True, newValue = JNum 7\<rparr>" "JNum 7"]
  by simp

section \<open>Properties of the validate engine\<close>

lemma errors_of_simps [simp]: "errors_of (Inr xs) = xs" "errors_of (Inl e) = []"
  by (simp_all add: errors_of_def)

lemma gather_all_Inr:
  "(\<And>r. r \<in> set rs \<Longrightarrow> \<exists>xs. r = Inr xs) \<Longrightarrow> gather rs = Inr (concat (map errors_of rs))"
proof (induction rs)
  case Nil
  then show ?case by simp
next
  case (Cons r rs)
  from Cons.prems obtain xs where r: "r = Inr xs" by auto
  have "gather rs = Inr (concat (map errors_of rs))"
    using Cons.IH Cons.prems by simp
  with r show ?case by simp
qed

lemma gather_Inr_concat:
  "gather rs = Inr ys \<Longrightarrow> ys = concat (map errors_of rs)"
proof (induction rs arbitrary: ys)
  case Nil
  then show ?case by simp
next
  case (Cons r rs)
  then show ?case by (cases r) (auto split: sum.splits)
qed

lemma wf_pattern_errors:
  "(case pattern c of Some pat \<Rightarrow> pat = [] \<or> regex_compiles P pat | None \<Rightarrow> True) \<Longrightarrow>
   \<exists>es. pattern_errors P v c basePath = Inr es"
  by (auto simp: pattern_errors_def split: option.splits json.splits)

lemma wf_primitive:
  "(case pattern c of Some pat \<Rightarrow> pat = [] \<or> regex_compiles P pat | None \<Rightarrow> True) \<Longrightarrow>
   \<exists>es. validatePrimitiveAgainstSchema P v c basePath = Inr es"
  using wf_pattern_errors [where c = c and P = P and v = v and basePath = basePath]
  by (auto simp: validatePrimitiveAgainstSchema_def)

lemma validate_total:
  "wf_schema P sch \<Longrightarrow> \<exists>errs. validateAgainstSchema P json sch basePath = Inr errs"
proof (induction P json sch basePath rule: validateAgainstSchema.induct)
  case (1 P json c props its basePath)
  show ?case
  proof (cases "case expectedTypes c of Some ts \<Rightarrow> getTypeName json \<notin> set ts | None \<Rightarrow> False")
    case True
    then show ?thesis by simp
  next
    case ok: False
    have pat: "case pattern c of Some pat \<Rightarrow> pat = [] \<or> regex_compiles P pat | None \<Rightarrow> True"
      using "1.prems" by simp
    show ?thesis
    proof (cases json)
      case (JArr xs ps)
      let ?rs = "case its of
                   Some it \<Rightarrow> map (\<lambda>ix. validateAgainstSchema P (snd ix) it (item_path basePath (fst ix)))
                                (enumerate 0 xs)
                 | None \<Rightarrow> []"
      have "\<And>r. r \<in> set ?rs \<Longrightarrow> \<exists>es. r = Inr es"
      proof -
        fix r assume r: "r \<in> set ?rs"
        then obtain it where it: "its = Some it" by (cases its) auto
        with r obtain ix where ix: "ix \<in> set (enumerate 0 xs)"
          and req: "r = validateAgainstSchema P (snd ix) it (item_path basePath (fst ix))" by auto
        have "wf_schema P it" using "1.prems" it by simp
        from "1.IH"(1) [OF ok JArr it ix this] req show "\<exists>es. r = Inr es" by simp
      qed
      then have "gather ?rs = Inr (concat (map errors_of ?rs))" by (rule gather_all_Inr)
      with ok JArr show ?thesis by simp
    next
      case (JObj al)
      let ?rs = "case props of
                   Some ps \<Rightarrow> map (\<lambda>entry. case map_of al (fst entry) of
                                             Some child \<Rightarrow> validateAgainstSchema P child (snd entry)
                                                             (prop_path basePath (fst entry))
                                           | None \<Rightarrow> Inr []) ps
                 | None \<Rightarrow> []"
      have "\<And>r. r \<in> set ?rs \<Longrightarrow> \<exists>es. r = Inr es"
      proof -
        fix r assume r: "r \<in> set ?rs"
        then obtain ps where ps: "props = Some ps" by (cases props) auto
        with r obtain entry where entry: "entry \<in> set ps"
          and req: "r = (case map_of al (fst entry) of
                           Some child \<Rightarrow> validateAgainstSchema P child (snd entry)
                                           (prop_path basePath (fst entry))
                         | None \<Rightarrow> Inr [])" by auto
        have wf: "wf_schema P (snd entry)"
          using "1.prems" ps entry by (simp add: list_all_iff)
        show "\<exists>es. r = Inr es"
        proof (cases "map_of al (fst entry)")
          case None
          with req show ?thesis by simp
        next
          case (Some child)
          from "1.IH"(2) [OF ok JObj ps entry Some wf] req Some show ?thesis by simp
        qed
      qed
      then have "gather ?rs = Inr (concat (map errors_of ?rs))" by (rule gather_all_Inr)
      with ok JObj show ?thesis by simp
    qed (use ok pat wf_primitive [where c = c and P = P and basePath = basePath] in simp_all)
  qed
qed


text \<open>
  Claim C4 at a schema that requires a name every object inherits.  The document \<open>{}\<close> has
  no property \<open>toString\<close>, so validating it against \<open>{type: 'object', required: ['toString']}\<close>
  should list the missing property.  The validator tests \<open>prop in obj\<close>, which holds for the
  names inherited from \<open>Object.prototype\<close> as well: it reports nothing and answers \<open>valid\<close>.
\<close>

theorem inherited_name_passes_required:
  "validateSchema P (JObj [])
     (Schema (no_constraints\<lparr>stype := Some (TypeName ''object''), required := Some [''toString'']\<rparr>)
        None None)
   = Inr \<lparr>valid = True, errors = []\<rparr>"
  by (simp add: validateSchema_def no_constraints_def expectedTypes_def required_errors_def
      additional_errors_def count_errors_def has_property_def prototype_names_def)

text \<open>
  Claim C6 at its own example.  Validating \<open>{}\<close> against
  \<open>{type: 'object', required: ['name'], properties: {name: {type: 'string'}}}\<close> gives one
  error whose message says the property is missing, but its path is \<open>.name\<close>: the object
  validator joins the base path and the key with a dot also when the base path is empty.
\<close>

theorem required_name_reported_with_leading_dot:
  "validateSchema P (JObj [])
     (Schema (no_constraints\<lparr>stype := Some (TypeName ''object''), required := Some [''name'']\<rparr>)
        (Some [(''name'', Schema (no_constraints\<lparr>stype := Some (TypeName ''string'')\<rparr>) None None)])
        None)
   = Inr \<lparr>valid = False,
          errors = [\<lparr>e_path = ''.name'',
                     e_message = ''Required property '' @ [dquote] @ ''name'' @ [dquote] @ '' is missing'',
                     e_value = JUndefined, e_expected = JStr ''present''\<rparr>]\<rparr>"
  by (simp add: validateSchema_def no_constraints_def expectedTypes_def required_errors_def
      additional_errors_def count_errors_def createError_def prop_path_def has_property_def
      prototype_names_def)

section \<open>Properties of the merge engine\<close>

lemma getValueType_deepClone [simp]: "getValueType (deepClone v) = getValueType v"
  by (cases v) simp_all

lemma deepClone_primitive:
  "getValueType v \<in> {''boolean'', ''number'', ''string''} \<Longrightarrow> deepClone v = v"
  by (cases v) simp_all

lemma deepClone_nullish [simp]:
  "deepClone v = JNull \<longleftrightarrow> v = JNull" "deepClone v = JUndefined \<longleftrightarrow> v = JUndefined"
  by (cases v; simp)+

lemma deepClone_idem: "deepClone (deepClone v) = deepClone v"
  by (induction v rule: deepClone.induct) simp_all

lemma disagree_deepClone: "disagree a b \<Longrightarrow> disagree (deepClone a) (deepClone b)"
  by (auto simp: disagree_def deepClone_primitive)

lemma raise_at_node:
  assumes "depth \<le> max_depth" "disagree target source"
    and "case custom of Some f \<Rightarrow> f path target source = JUndefined | None \<Rightarrow> True"
  shows "\<exists>msg. deepMergeRecursive target source merge_strategy array_strategy ''throw'' custom path
                 max_depth depth = Inl (JsonMergeError msg path target source)"
proof (cases "getValueType target = getValueType source")
  case False
  with assms show ?thesis
    by (subst deepMergeRecursive.simps)
       (auto simp: disagree_def type_conflict_def split: option.splits)
next
  case True
  with assms(2) have prim: "getValueType target \<in> {''boolean'', ''number'', ''string''}"
    and ne: "target \<noteq> source"
    by (auto simp: disagree_def)
  from prim True have "(case (target, source) of
           (JArr xs ps, JArr ys qs) \<Rightarrow> A xs ys
         | (JObj tal, JObj sal) \<Rightarrow> B tal sal
         | _ \<Rightarrow> C) = C" for A B and C :: "error + json"
    by (cases target; cases source) auto
  with assms True ne show ?thesis
    by (subst deepMergeRecursive.simps)
       (auto simp: disagree_def value_conflict_def split: option.splits)
qed

subsection \<open>Arrays are merged without comparison\<close>

lemma fold_Inr:
  assumes "\<And>acc x. x \<in> set xs \<Longrightarrow> \<exists>r. acc = Inr r \<Longrightarrow> \<exists>r. f acc x = Inr r"
  shows "\<exists>r. a = Inr r \<Longrightarrow> \<exists>r. foldl f a xs = Inr r"
  using assms
proof (induction xs arbitrary: a)
  case Nil
  then show ?case by simp
next
  case (Cons x xs)
  from Cons.prems have "\<exists>r. f a x = Inr r" by simp
  from Cons.IH [OF this] Cons.prems(2) show ?case by simp
qed

lemma arrays_never_raise:
  "(case arg of
      Inl (t, s, a) \<Rightarrow> (case a of Some st \<Rightarrow> st = [] \<or> st \<in> set known_array_strategies | None \<Rightarrow> True)
    | Inr (a, b, st) \<Rightarrow> st \<in> set known_array_strategies)
   \<Longrightarrow> \<exists>r. merge_two_arrays arg = Inr r"
proof (induction arg rule: merge_two_arrays.induct)
  case (1 target source array_strategy)
  let ?st = "case array_strategy of None \<Rightarrow> ''concat'' | Some s \<Rightarrow> if s = [] then ''concat'' else s"
  have known: "?st \<in> set known_array_strategies"
    using "1.prems" by (auto simp: known_array_strategies_def split: option.splits)
  show ?case
  proof (cases "source = JNull \<or> source = JUndefined \<or> target = JNull \<or> target = JUndefined
                  \<or> getValueType target \<noteq> getValueType source")
    case True
    then show ?thesis by (subst merge_two_arrays.simps) auto
  next
    case False
    then have n1: "\<not> (source = JNull \<or> source = JUndefined)"
      and n2: "\<not> (target = JNull \<or> target = JUndefined)"
      and n3: "\<not> getValueType target \<noteq> getValueType source" by auto
    show ?thesis
    proof (cases target)
      case (JArr xs ps)
      with False obtain ys qs where s: "source = JArr ys qs" by (cases source) auto
      from "1.IH"(1) [OF n1 n2 n3 refl JArr s] known
      obtain r where "merge_two_arrays (Inr (xs, ys, ?st)) = Inr r" by auto
      with False JArr s show ?thesis by (subst merge_two_arrays.simps) simp
    next
      case (JObj tal)
      with False obtain sal where s: "source = JObj sal" by (cases source) auto
      let ?step = "\<lambda>acc kv.
                      case acc of
                        Inl e \<Rightarrow> Inl e
                      | Inr result \<Rightarrow>
                          (case map_of result (fst kv) of
                             Some tv \<Rightarrow>
                               (case merge_two_arrays (Inl (tv, deepClone (snd kv), array_strategy)) of
                                  Inl e \<Rightarrow> Inl e
                                | Inr r \<Rightarrow> Inr (AList.update (fst kv) r result))
                           | None \<Rightarrow> Inr (AList.update (fst kv) (deepClone (snd kv)) result))"
      have "\<exists>r. foldl ?step (Inr (map (\<lambda>kv. (fst kv, deepClone (snd kv))) tal)) sal = Inr r"
      proof (rule fold_Inr)
        fix acc :: "error + (string \<times> json) list" and kv :: "string \<times> json"
        assume kv: "kv \<in> set sal" and "\<exists>r. acc = Inr r"
        then obtain b where acc: "acc = Inr b" by blast
        show "\<exists>r. ?step acc kv = Inr r"
        proof (cases "map_of b (fst kv)")
          case None
          with acc show ?thesis by simp
        next
          case (Some tv)
          from "1.IH"(2) [OF n1 n2 n3 refl JObj s kv acc Some] "1.prems"
          obtain r where "merge_two_arrays (Inl (tv, deepClone (snd kv), array_strategy)) = Inr r"
            by auto
          with acc Some show ?thesis by simp
        qed
      qed simp
      then obtain r where "foldl ?step (Inr (map (\<lambda>kv. (fst kv, deepClone (snd kv))) tal)) sal = Inr r"
        by blast
      with False JObj s show ?thesis by (subst merge_two_arrays.simps) simp
    qed (use False in \<open>subst merge_two_arrays.simps, cases source, auto\<close>)+
  qed
next
  case (2 a b array_strategy)
  show ?case
  proof (cases "array_strategy = ''deep''")
    case False
    with "2.prems" show ?thesis
      by (subst merge_two_arrays.simps) (auto simp: known_array_strategies_def)
  next
    case True
    let ?step = "\<lambda>acc i.
                 case acc of
                   Inl e \<Rightarrow> Inl e
                 | Inr result \<Rightarrow>
                     if i \<ge> length a then Inr (result @ [deepClone (b ! i)])
                     else if i \<ge> length b then Inr (result @ [deepClone (a ! i)])
                     else if isPlainObject (a ! i) \<and> isPlainObject (b ! i)
                       then (case merge_two_arrays (Inl (a ! i, b ! i, None)) of
                               Inl e \<Rightarrow> Inl e
                             | Inr r \<Rightarrow> Inr (result @ [r]))
                     else Inr (result @ [deepClone (b ! i)])"
    have "\<exists>r. foldl ?step (Inr []) [0..<max (length a) (length b)] = Inr r"
    proof (rule fold_Inr)
      fix acc :: "error + json list" and i :: nat
      assume i: "i \<in> set [0..<max (length a) (length b)]" and "\<exists>r. acc = Inr r"
      then obtain res where acc: "acc = Inr res" by blast
      show "\<exists>r. ?step acc i = Inr r"
      proof (cases "\<not> length a \<le> i \<and> \<not> length b \<le> i \<and> isPlainObject (a ! i) \<and> isPlainObject (b ! i)")
        case False
        with acc show ?thesis by auto
      next
        case t: True
        have "''deep'' \<noteq> ''concat''" "''deep'' \<noteq> ''union''" "''deep'' \<noteq> ''intersection''"
          "''deep'' \<noteq> ''replace''" by simp_all
        from "2.IH" [OF this [folded True] True i acc] t
        obtain r where "merge_two_arrays (Inl (a ! i, b ! i, None)) = Inr r" by auto
        with acc t show ?thesis by simp
      qed
    qed simp
    then obtain r where "foldl ?step (Inr []) [0..<max (length a) (length b)] = Inr r" by blast
    with True show ?thesis by (subst merge_two_arrays.simps) simp
  qed
qed


lemma cloned_entry:
  assumes "deepClone (JObj al) = JObj al" "kv \<in> set al"
  shows "deepClone (snd kv) = snd kv"
proof -
  from assms(1) have "map (\<lambda>kv. (fst kv, deepClone (snd kv))) al = map id al" by simp
  then have "(fst kv, deepClone (snd kv)) = id kv" using assms(2) by (simp only: map_eq_conv)
  then show ?thesis by (cases kv) simp
qed

lemma cloned_entries:
  "deepClone (JObj al) = JObj al \<Longrightarrow> map (\<lambda>kv. (fst kv, deepClone (snd kv))) al = al"
  by simp

lemma levels_entry: "kv \<in> set al \<Longrightarrow> levels (snd kv) < levels (JObj al)"
proof -
  have "kv \<in> set al \<Longrightarrow> levels (snd kv) \<le> foldr (\<lambda>kv m. max (levels (snd kv)) m) al 0"
    by (induction al) auto
  then show "kv \<in> set al \<Longrightarrow> levels (snd kv) < levels (JObj al)" by simp
qed

lemma levels_deepClone: "levels (deepClone v) = levels v"
proof (induction v rule: deepClone.induct)
  case (2 al)
  have "foldr (\<lambda>kv m. max (levels (snd kv)) m) (map (\<lambda>kv. (fst kv, deepClone (snd kv))) al) 0
          = foldr (\<lambda>kv m. max (levels (snd kv)) m) al 0"
    using 2 by (induction al) auto
  then show ?case by simp
qed simp_all

lemma proper_deepClone: "proper v \<Longrightarrow> proper (deepClone v)"
proof (induction v rule: deepClone.induct)
  case (1 xs ps)
  then show ?case by (auto simp: list_all_iff)
next
  case (2 al)
  from 2 show ?case by (auto simp: list_all_iff comp_def)
qed simp_all

lemma at_keys_deepClone: "at_keys (deepClone v) ks = map_option deepClone (at_keys v ks)"
proof (induction ks arbitrary: v)
  case Nil
  then show ?case by simp
next
  case (Cons k ks)
  show ?case
  proof (cases v)
    case (JObj al)
    have "map_of (map (\<lambda>kv. (fst kv, deepClone (snd kv))) al) k = map_option deepClone (map_of al k)"
      by (induction al) auto
    with JObj Cons.IH show ?thesis by (auto split: option.splits)
  qed simp_all
qed

lemma disagree_deepClone_iff: "disagree (deepClone a) (deepClone b) = disagree a b"
proof -
  have "deepClone a \<noteq> deepClone b \<longleftrightarrow> a \<noteq> b"
    if "getValueType a \<in> {''boolean'', ''number'', ''string''}" "getValueType a = getValueType b"
    using that by (simp add: deepClone_primitive)
  then show ?thesis by (auto simp: disagree_def)
qed

subsection \<open>The deep merge of two objects, key by key\<close>

lemma objects_unfold:
  assumes "\<not> max_depth < depth" "merge_strategy \<noteq> ''shallow''"
  shows "deepMergeRecursive (JObj tal) (JObj sal) merge_strategy array_strategy conflict_strategy None
           path max_depth depth
         = (case foldl (merge_step (\<lambda>k tv sv. deepMergeRecursive tv sv merge_strategy array_strategy
                                       conflict_strategy None (extend_path path k) max_depth (depth + 1)))
                   (Inr (map (\<lambda>kv. (fst kv, deepClone (snd kv))) tal)) sal of
              Inl e \<Rightarrow> Inl e
            | Inr result \<Rightarrow> Inr (JObj result))"
  using assms
  by (subst deepMergeRecursive.simps) (simp add: merge_step_def [abs_def] extend_path_def)

lemma fold_merge_Inl: "foldl (merge_step rec) (Inl e) sal = Inl e"
  by (induction sal) (simp_all add: merge_step_def)

lemma fold_merge:
  assumes "distinct (map fst sal)" "\<forall>kv \<in> set sal. map_of r0 (fst kv) = map_of tal (fst kv)"
  shows "case foldl (merge_step rec) (Inr r0) sal of
           Inl e \<Rightarrow> \<exists>kv \<in> set sal. \<exists>tv. map_of tal (fst kv) = Some tv
                                  \<and> rec (fst kv) tv (deepClone (snd kv)) = Inl e
         | Inr res \<Rightarrow> \<forall>kv \<in> set sal. \<forall>tv. map_of tal (fst kv) = Some tv
                                  \<longrightarrow> (\<exists>r. rec (fst kv) tv (deepClone (snd kv)) = Inr r)"
  using assms
proof (induction sal arbitrary: r0)
  case Nil
  then show ?case by simp
next
  case (Cons kv rest)
  from Cons.prems have d: "distinct (map fst rest)" and fresh: "fst kv \<notin> fst ` set rest"
    and here: "map_of r0 (fst kv) = map_of tal (fst kv)"
    and there: "\<forall>kv' \<in> set rest. map_of r0 (fst kv') = map_of tal (fst kv')"
    by auto
  have keep: "\<forall>kv' \<in> set rest. map_of (AList.update (fst kv) x r0) (fst kv') = map_of tal (fst kv')" for x
  proof
    fix kv' assume m: "kv' \<in> set rest"
    then have "fst kv' \<in> fst ` set rest" by (rule imageI)
    with fresh have "fst kv' \<noteq> fst kv" by metis
    with there m show "map_of (AList.update (fst kv) x r0) (fst kv') = map_of tal (fst kv')"
      by (simp add: update_conv')
  qed
  show ?case
  proof (cases "map_of tal (fst kv)")
    case None
    with here have step: "merge_step rec (Inr r0) kv = Inr (AList.update (fst kv) (deepClone (snd kv)) r0)"
      by (simp add: merge_step_def)
    from Cons.IH [OF d keep, of "deepClone (snd kv)"] None step show ?thesis
      by (auto split: sum.splits)
  next
    case (Some tv)
    show ?thesis
    proof (cases "rec (fst kv) tv (deepClone (snd kv))")
      case (Inl e)
      with here Some have "merge_step rec (Inr r0) kv = Inl e" by (simp add: merge_step_def)
      with Some Inl show ?thesis by (simp add: fold_merge_Inl)
    next
      case (Inr m)
      with here Some have step: "merge_step rec (Inr r0) kv = Inr (AList.update (fst kv) m r0)"
        by (simp add: merge_step_def)
      from Cons.IH [OF d keep, of m] Some Inr step show ?thesis
        by (auto split: sum.splits)
    qed
  qed
qed

lemma no_keys_below:
  "\<not> isPlainObject v \<Longrightarrow> ks \<noteq> [] \<Longrightarrow> at_keys v ks = None"
  by (cases v; cases ks) simp_all

lemma disagree_at_root: "disagree_at t s [] = disagree t s"
  by (simp add: disagree_at_def)

lemma disagree_at_leaf:
  "\<not> isPlainObject t \<or> \<not> isPlainObject s \<Longrightarrow> ks \<noteq> [] \<Longrightarrow> \<not> disagree_at t s ks"
  by (auto simp: disagree_at_def no_keys_below split: option.splits)


lemma raised_at_below:
  assumes "raised_at e (extend_path path k) tv sv" "map_of tal k = Some tv" "map_of sal k = Some sv"
  shows "raised_at e path (JObj tal) (JObj sal)"
proof -
  from assms(1) obtain msg ks a b where
    e: "e = JsonMergeError msg (foldl extend_path (extend_path path k) ks) a b"
    and at: "at_keys tv ks = Some a" "at_keys sv ks = Some b" "disagree a b"
    by (auto simp: raised_at_def)
  have "e = JsonMergeError msg (foldl extend_path path (k # ks)) a b" using e by simp
  moreover have "at_keys (JObj tal) (k # ks) = Some a" "at_keys (JObj sal) (k # ks) = Some b"
    using at assms(2,3) by simp_all
  ultimately show ?thesis using at(3) unfolding raised_at_def by blast
qed

lemma merge_raises_exactly:
  assumes ms: "ms \<noteq> ''shallow''" and known: "as \<in> set known_array_strategies"
  shows "deepClone target = target \<Longrightarrow> deepClone source = source \<Longrightarrow> proper source \<Longrightarrow>
         int (levels source) + depth \<le> maxd \<Longrightarrow>
         (case deepMergeRecursive target source ms as ''throw'' None path maxd depth of
            Inl e \<Rightarrow> raised_at e path target source
          | Inr r \<Rightarrow> \<forall>ks. \<not> disagree_at target source ks)"
proof (induction "size source" arbitrary: target source path depth rule: less_induct)
  case less
  let ?R = "deepMergeRecursive target source ms as ''throw'' None path maxd depth"
  from less.prems(4) have d: "\<not> maxd < depth" by linarith
  have root: "raised_at (JsonMergeError msg path target source) path target source"
    if "disagree target source" for msg
    unfolding raised_at_def using that by (intro exI [of _ msg] exI [of _ "[]"]) simp
  have leaf: "\<forall>ks. \<not> disagree_at target source ks"
    if "\<not> disagree target source" "\<not> isPlainObject target \<or> \<not> isPlainObject source"
  proof
    fix ks show "\<not> disagree_at target source ks"
      using that disagree_at_leaf [of target source ks] by (cases ks) (simp_all add: disagree_at_root)
  qed
  show ?case
  proof (cases "source = JNull \<or> source = JUndefined")
    case True
    then have "?R = Inr target" using d by (subst deepMergeRecursive.simps) simp
    moreover from True have "\<forall>ks. \<not> disagree_at target source ks"
      by (intro leaf) (auto simp: disagree_def)
    ultimately show ?thesis by simp
  next
    case ns: False
    show ?thesis
    proof (cases "target = JNull \<or> target = JUndefined")
      case True
      with ns have "?R = Inr (deepClone source)" using d by (subst deepMergeRecursive.simps) simp
      moreover from True have "\<forall>ks. \<not> disagree_at target source ks"
        by (intro leaf) (auto simp: disagree_def)
      ultimately show ?thesis by simp
    next
      case nt: False
      show ?thesis
      proof (cases "getValueType target = getValueType source")
        case False
        with ns nt have dis: "disagree target source" by (auto simp: disagree_def)
        from raise_at_node [OF _ dis, where depth = depth and max_depth = maxd and custom = None
                              and path = path and merge_strategy = ms and array_strategy = as] d
        obtain msg where "?R = Inl (JsonMergeError msg path target source)" by auto
        with root [OF dis] show ?thesis by simp
      next
        case same: True
        have primitive: ?thesis
          if "getValueType target \<in> {''boolean'', ''number'', ''string''}"
        proof (cases "target = source")
          case False
          with ns nt that have dis: "disagree target source" by (auto simp: disagree_def)
          from raise_at_node [OF _ dis, where depth = depth and max_depth = maxd and custom = None
                                and path = path and merge_strategy = ms and array_strategy = as] d
          obtain msg where "?R = Inl (JsonMergeError msg path target source)" by auto
          with root [OF dis] show ?thesis by simp
        next
          case True
          with that d have "?R = Inr target"
            by (subst deepMergeRecursive.simps) (cases source; simp)
          moreover from that have "\<not> isPlainObject target" by (cases target) auto
          with True have "\<forall>ks. \<not> disagree_at target source ks"
            by (intro leaf) (auto simp: disagree_def)
          ultimately show ?thesis by simp
        qed
        show ?thesis
        proof (cases target)
          case (JArr xs ps)
          with same obtain ys qs where s: "source = JArr ys qs" by (cases source) auto
          from arrays_never_raise [of "Inr (xs, ys, as)"] known
          obtain r where "mergeArrays xs ys as = Inr r" by (auto simp: mergeArrays_def)
          with JArr s d have "?R = Inr r" by (subst deepMergeRecursive.simps) simp
          moreover from JArr s have "\<forall>ks. \<not> disagree_at target source ks"
            by (intro leaf) (auto simp: disagree_def)
          ultimately show ?thesis by simp
        next
          case (JObj tal)
          with same obtain sal where s: "source = JObj sal" by (cases source) auto
          let ?rec = "\<lambda>k tv sv. deepMergeRecursive tv sv ms as ''throw'' None (extend_path path k) maxd
                                  (depth + 1)"
          from less.prems(1) JObj have tal: "map (\<lambda>kv. (fst kv, deepClone (snd kv))) tal = tal"
            by simp
          have R: "?R = (case foldl (merge_step ?rec) (Inr tal) sal of
                           Inl e \<Rightarrow> Inl e | Inr result \<Rightarrow> Inr (JObj result))"
            using objects_unfold [OF d ms, of tal sal as "''throw''" path] JObj s tal by simp
          from less.prems(3) s have dist: "distinct (map fst sal)" by simp
          have below: "case ?rec (fst kv) tv (deepClone (snd kv)) of
                         Inl e \<Rightarrow> raised_at e (extend_path path (fst kv)) tv (snd kv)
                       | Inr r \<Rightarrow> \<forall>ks. \<not> disagree_at tv (snd kv) ks"
            if kv: "kv \<in> set sal" and tv: "map_of tal (fst kv) = Some tv" for kv tv
          proof -
            from less.prems(2) s kv have c: "deepClone (snd kv) = snd kv"
              using cloned_entry [of sal kv] by simp
            have sz: "size (snd kv) < size source"
              using s kv size_entry [of "fst kv" "snd kv" sal] by simp
            from tv have "(fst kv, tv) \<in> set tal" by (rule map_of_SomeD)
            with less.prems(1) JObj have ct: "deepClone tv = tv"
              using cloned_entry [of tal "(fst kv, tv)"] by simp
            from less.prems(3) s kv have p: "proper (snd kv)" by (auto simp: list_all_iff)
            from levels_entry [OF kv] s less.prems(4)
            have lv: "int (levels (snd kv)) + (depth + 1) \<le> maxd" by simp
            from less.hyps [OF sz ct c p lv, of "extend_path path (fst kv)"] c show ?thesis by simp
          qed
          from fold_merge [OF dist, of tal tal ?rec]
          have fm: "case foldl (merge_step ?rec) (Inr tal) sal of
             Inl e \<Rightarrow> \<exists>kv \<in> set sal. \<exists>tv. map_of tal (fst kv) = Some tv
                                    \<and> ?rec (fst kv) tv (deepClone (snd kv)) = Inl e
           | Inr res \<Rightarrow> \<forall>kv \<in> set sal. \<forall>tv. map_of tal (fst kv) = Some tv
                                    \<longrightarrow> (\<exists>r. ?rec (fst kv) tv (deepClone (snd kv)) = Inr r)"
            by simp
          show ?thesis
          proof (cases "foldl (merge_step ?rec) (Inr tal) sal")
            case (Inl e)
            with fm obtain kv tv where kv: "kv \<in> set sal" and tv: "map_of tal (fst kv) = Some tv"
              and r: "?rec (fst kv) tv (deepClone (snd kv)) = Inl e" by auto
            from below [OF kv tv] r have "raised_at e (extend_path path (fst kv)) tv (snd kv)" by simp
            moreover from dist kv have "map_of sal (fst kv) = Some (snd kv)" by simp
            ultimately have "raised_at e path (JObj tal) (JObj sal)"
              using tv by (intro raised_at_below)
            with R Inl JObj s show ?thesis by simp
          next
            case (Inr res)
            have "\<not> disagree_at target source ks" for ks
            proof (cases ks)
              case Nil
              with JObj s show ?thesis by (simp add: disagree_at_root disagree_def)
            next
              case (Cons k ks')
              show ?thesis
              proof
                assume da: "disagree_at target source ks"
                with Cons JObj s obtain tv sv where tv: "map_of tal k = Some tv"
                  and sv: "map_of sal k = Some sv" and below_k: "disagree_at tv sv ks'"
                  by (auto simp: disagree_at_def split: option.splits)
                from sv have kv: "(k, sv) \<in> set sal" by (rule map_of_SomeD)
                with fm Inr tv obtain r where "?rec k tv (deepClone sv) = Inr r" by force
                with below [OF kv] tv below_k show False by simp
              qed
            qed
            with R Inr show ?thesis by simp
          qed
        next
          case JUndefined with nt show ?thesis by simp
        next
          case JNull with nt show ?thesis by simp
        next
          case (JBool b)
          then have "getValueType target \<in> {''boolean'', ''number'', ''string''}" by simp
          then show ?thesis by (rule primitive)
        next
          case (JNum n)
          then have "getValueType target \<in> {''boolean'', ''number'', ''string''}" by simp
          then show ?thesis by (rule primitive)
        next
          case (JStr str)
          then have "getValueType target \<in> {''boolean'', ''number'', ''string''}" by simp
          then show ?thesis by (rule primitive)
        qed
      qed
    qed
  qed
qed


lemma disagree_at_deepClone:
  "disagree_at (deepClone t) (deepClone s) ks = disagree_at t s ks"
  by (cases "at_keys t ks"; cases "at_keys s ks")
     (simp_all add: disagree_at_def at_keys_deepClone disagree_deepClone_iff)

subsection \<open>Conflicts under \<open>throw\<close>\<close>

text \<open>
  Claim C8, as the code has it.  Take \<open>deepMerge\<close> with the conflict strategy \<open>throw\<close>, a
  merge strategy other than \<open>shallow\<close>, no custom merge function, an array strategy that
  \<open>mergeArrays\<close> knows, and a source whose objects nest no deeper than \<open>maxDepth\<close>; let
  both documents be proper.  If the two sides disagree at some location reached through
  object keys, the call raises \<open>JsonMergeError\<close>, and the error carries the dotted path of
  a location where they disagree, with copies of the two values found there.  Which
  location it is, when several disagree, follows the order of the visit and is not fixed
  by the statement.
\<close>

theorem throw_where_sides_disagree:
  assumes "conflictStrategy options = Some ''throw''"
    and "option_or (strategy options) ''deep'' \<noteq> ''shallow''"
    and "customMerge options = None"
    and "option_or (arrayStrategy options) ''concat'' \<in> set known_array_strategies"
    and "int (levels source) \<le> option_or (maxDepth options) 100"
    and "proper target" "proper source"
    and "disagree_at target source keys"
  shows "\<exists>msg ks tv sv.
           deepMerge target source options
             = Inl (JsonMergeError msg (foldl extend_path [] ks) (deepClone tv) (deepClone sv))
           \<and> at_keys target ks = Some tv \<and> at_keys source ks = Some sv \<and> disagree tv sv"
proof -
  let ?t = "deepClone target" and ?s = "deepClone source"
  let ?R = "deepMergeRecursive ?t ?s (option_or (strategy options) ''deep'')
              (option_or (arrayStrategy options) ''concat'') ''throw'' None []
              (option_or (maxDepth options) 100) 0"
  have R: "deepMerge target source options = ?R"
    using assms(1,3) by (simp add: deepMerge_def option_or_def)
  have "case ?R of Inl e \<Rightarrow> raised_at e [] ?t ?s | Inr r \<Rightarrow> \<forall>ks. \<not> disagree_at ?t ?s ks"
    using assms(5) proper_deepClone [OF assms(7)]
    by (intro merge_raises_exactly [OF assms(2,4)]) (simp_all add: deepClone_idem levels_deepClone)
  moreover from assms(8) have "disagree_at ?t ?s keys" by (simp add: disagree_at_deepClone)
  ultimately obtain e where e: "?R = Inl e" and at: "raised_at e [] ?t ?s"
    by (cases ?R) auto
  from at obtain msg ks a b where e': "e = JsonMergeError msg (foldl extend_path [] ks) a b"
    and a: "at_keys ?t ks = Some a" and b: "at_keys ?s ks = Some b" and d: "disagree a b"
    by (auto simp: raised_at_def)
  from a obtain tv where tv: "at_keys target ks = Some tv" "a = deepClone tv"
    by (auto simp: at_keys_deepClone)
  from b obtain sv where sv: "at_keys source ks = Some sv" "b = deepClone sv"
    by (auto simp: at_keys_deepClone)
  from d tv sv have dis: "disagree tv sv" by (simp add: disagree_deepClone_iff)
  from R e e' tv sv have "deepMerge target source options
      = Inl (JsonMergeError msg (foldl extend_path [] ks) (deepClone tv) (deepClone sv))"
    by simp
  with tv(1) sv(1) dis show ?thesis by (intro exI conjI)
qed

theorem throw_where_sides_disagree_witness:
  "proper (JObj [(''a'', JObj [(''b'', JNum 1), (''c'', JArr [JNum 1] [])]), (''d'', JNum 2)]) \<and>
   proper (JObj [(''d'', JNum 2), (''a'', JObj [(''c'', JArr [JNum 2] []), (''b'', JStr ''x'')])]) \<and>
   disagree_at (JObj [(''a'', JObj [(''b'', JNum 1), (''c'', JArr [JNum 1] [])]), (''d'', JNum 2)])
     (JObj [(''d'', JNum 2), (''a'', JObj [(''c'', JArr [JNum 2] []), (''b'', JStr ''x'')])])
     [''a'', ''b''] \<and>
   (\<exists>msg ks tv sv.
      deepMerge (JObj [(''a'', JObj [(''b'', JNum 1), (''c'', JArr [JNum 1] [])]), (''d'', JNum 2)])
        (JObj [(''d'', JNum 2), (''a'', JObj [(''c'', JArr [JNum 2] []), (''b'', JStr ''x'')])])
        (no_options\<lparr>conflictStrategy := Some ''throw''\<rparr>)
        = Inl (JsonMergeError msg (foldl extend_path [] ks) (deepClone tv) (deepClone sv))
      \<and> at_keys (JObj [(''a'', JObj [(''b'', JNum 1), (''c'', JArr [JNum 1] [])]), (''d'', JNum 2)]) ks
          = Some tv
      \<and> at_keys (JObj [(''d'', JNum 2), (''a'', JObj [(''c'', JArr [JNum 2] []), (''b'', JStr ''x'')])]) ks
          = Some sv
      \<and> disagree tv sv)"
proof -
  let ?T = "JObj [(''a'', JObj [(''b'', JNum 1), (''c'', JArr [JNum 1] [])]), (''d'', JNum 2)]"
  let ?S = "JObj [(''d'', JNum 2), (''a'', JObj [(''c'', JArr [JNum 2] []), (''b'', JStr ''x'')])]"
  let ?O = "no_options\<lparr>conflictStrategy := Some ''throw''\<rparr>"
  have pt: "proper ?T" and ps: "proper ?S" by (simp_all add: prototype_names_def)
  have da: "disagree_at ?T ?S [''a'', ''b'']" by (simp add: disagree_at_def disagree_def)
  have o: "conflictStrategy ?O = Some ''throw''" "option_or (strategy ?O) ''deep'' \<noteq> ''shallow''"
    "customMerge ?O = None" "option_or (arrayStrategy ?O) ''concat'' \<in> set known_array_strategies"
    "int (levels ?S) \<le> option_or (maxDepth ?O) 100"
    by (simp_all add: no_options_def option_or_def known_array_strategies_def)
  from throw_where_sides_disagree [OF o pt ps da] pt ps da show ?thesis by simp
qed

text \<open>
  Claim C8 as stated covers every merge under \<open>throw\<close>.  Two merges in which the sides
  disagree and nothing is raised: with the strategy \<open>shallow\<close> the two objects are spread
  into one, \<open>{a: 1}\<close> and \<open>{a: "x"}\<close> giving \<open>{a: "x"}\<close>; and arrays are combined by
  \<open>mergeArrays\<close>, \<open>{a: [1]}\<close> and \<open>{a: ["x"]}\<close> giving \<open>{a: [1, "x"]}\<close>.
\<close>

theorem shallow_and_arrays_do_not_throw:
  "deepMerge (JObj [(''a'', JNum 1)]) (JObj [(''a'', JStr ''x'')])
     (no_options\<lparr>conflictStrategy := Some ''throw'', strategy := Some ''shallow''\<rparr>)
     = Inr (JObj [(''a'', JStr ''x'')]) \<and>
   deepMerge (JObj [(''a'', JArr [JNum 1] [])]) (JObj [(''a'', JArr [JStr ''x''] [])])
     (no_options\<lparr>conflictStrategy := Some ''throw''\<rparr>)
     = Inr (JObj [(''a'', JArr [JNum 1, JStr ''x''] [])])"
  by code_simp

text \<open>The example of the claim, with the message the error carries.\<close>

lemma merge_conflict_scenario:
  "deepMerge (JObj [(''a'', JNum 1)]) (JObj [(''a'', JStr ''x'')])
     (no_options\<lparr>conflictStrategy := Some ''throw''\<rparr>)
   = Inl (JsonMergeError
            (''Type mismatch at path '' @ [dquote] @ ''a'' @ [dquote] @ '': number vs string'')
            ''a'' (JNum 1) (JStr ''x''))"
  by code_simp

text \<open>
  Claim C5 at a two-object input.  \<open>mergeWithPriority({a: 1}, {a: 2})\<close> should keep the
  first value, \<open>1\<close>.  The loop merges with the conflict strategy \<open>priority\<close>, which takes
  the source side whenever it is not null, so the later object wins: the result is
  \<open>{a: 2}\<close> where \<open>const\<close> is lowered, and a \<open>TypeError\<close> where it is kept.
\<close>

theorem mergeWithPriority_later_value_wins:
  "mergeWithPriority False [JObj [(''a'', JNum 1)], JObj [(''a'', JNum 2)]] = Inr (JObj [(''a'', JNum 2)])
   \<and> mergeWithPriority True [JObj [(''a'', JNum 1)], JObj [(''a'', JNum 2)]] = Inl TypeError"
  by code_simp

section \<open>Properties of the compare engine\<close>

lemma inner_loop_remove_first:
  "j \<le> length pool \<Longrightarrow>
   inner_loop x pool j = map_option (\<lambda>rest. take j pool @ rest) (remove_first (deepEqual_compare x) (drop j pool))"
proof (induction x pool j rule: inner_loop.induct)
  case (1 x pool j)
  show ?case
  proof (cases "j < length pool")
    case False
    with "1.prems" show ?thesis by (subst inner_loop.simps) simp
  next
    case True
    then have d: "drop j pool = pool ! j # drop (Suc j) pool"
      by (simp add: Cons_nth_drop_Suc)
    show ?thesis
    proof (cases "deepEqual_compare x (pool ! j)")
      case True
      with \<open>j < length pool\<close> d show ?thesis by (subst inner_loop.simps) simp
    next
      case False
      with True "1.IH" have "inner_loop x pool (Suc j)
          = map_option (\<lambda>rest. take (Suc j) pool @ rest) (remove_first (deepEqual_compare x) (drop (Suc j) pool))"
        by simp
      with False True d show ?thesis
        by (subst inner_loop.simps) (simp add: take_Suc_conv_app_nth option.map_comp comp_def)
    qed
  qed
qed

lemma remove_first_length:
  "remove_first p ys = Some rest \<Longrightarrow> Suc (length rest) = length ys"
  by (induction ys arbitrary: rest) (auto split: if_splits)

lemma greedy_match_counts:
  "greedy_match j xs pool = (unmatched, leftover) \<Longrightarrow>
   length unmatched \<le> length xs \<and> length leftover + (length xs - length unmatched) = length pool"
proof (induction xs arbitrary: j pool unmatched leftover)
  case Nil
  then show ?case by simp
next
  case (Cons x xs)
  show ?case
  proof (cases "remove_first (deepEqual_compare x) pool")
    case None
    with Cons.prems obtain u where u: "greedy_match (Suc j) xs pool = (u, leftover)"
      and un: "unmatched = (j, x) # u"
      by (auto split: prod.splits)
    from Cons.IH [OF u] un show ?thesis by simp
  next
    case (Some rest)
    with Cons.prems have g: "greedy_match (Suc j) xs rest = (unmatched, leftover)" by simp
    from Cons.IH [OF g] remove_first_length [OF Some] show ?thesis
      by (simp add: Suc_diff_le)
  qed
qed

lemma outer_loop_greedy:
  "outer_loop i xs st =
     (case greedy_match i xs (bCopy st) of
        (unmatched, leftover) \<Rightarrow>
          st\<lparr>bCopy := leftover,
             matches := matches st + (length xs - length unmatched),
             pushed := pushed st @ map (\<lambda>ix. difference (''['' @ show_nat (fst ix) @ '']'')
                                              ''missing-element'' (snd ix) JUndefined) unmatched\<rparr>)"
proof (induction xs arbitrary: i st)
  case Nil
  then show ?case by simp
next
  case (Cons x xs)
  have le: "length (fst (greedy_match j ys pool)) \<le> length ys" for j ys pool
    using greedy_match_counts [of j ys pool] by (cases "greedy_match j ys pool") simp
  show ?case
  proof (cases "remove_first (deepEqual_compare x) (bCopy st)")
    case None
    then have "inner_loop x (bCopy st) 0 = None"
      by (simp add: inner_loop_remove_first)
    with None Cons.IH le [of "Suc i" xs "bCopy st"] show ?thesis
      by (auto split: prod.splits)
  next
    case (Some rest)
    then have "inner_loop x (bCopy st) 0 = Some rest"
      by (simp add: inner_loop_remove_first)
    with Some Cons.IH le [of "Suc i" xs rest] show ?thesis
      by (auto split: prod.splits simp: Suc_diff_le)
  qed
qed


text \<open>
  Claim C7, as the code has it.  Arrays of different lengths are not matched at all: the
  result is one \<open>length-mismatch\<close> difference, \<open>equal = false\<close> and similarity \<open>0\<close>.  Arrays
  of the same length are matched greedily; each unmatched element of \<open>a\<close> gives a
  \<open>missing-element\<close> difference at its index, each leftover element of \<open>b\<close> an
  \<open>extra-element\<close> difference, and the similarity is the number of matches over the length
  of \<open>a\<close> (\<open>1\<close> when both are empty).  Every element of \<open>b\<close> is either left over or was
  matched once.
\<close>

theorem unordered_compare_matches_greedily:
  "compareArraysUnordered (JArr xs ps) (JArr ys qs) =
     Inr (if length xs \<noteq> length ys
          then \<lparr>c_equal = False,
                c_differences = [difference [] ''length-mismatch'' (JNum (int (length xs)))
                                   (JNum (int (length ys)))],
                c_similarity = 0\<rparr>
          else (case greedy_match 0 xs ys of
                  (unmatched, leftover) \<Rightarrow>
                    \<lparr>c_equal = (unmatched = [] \<and> leftover = []),
                     c_differences =
                        map (\<lambda>ix. difference (''['' @ show_nat (fst ix) @ '']'') ''missing-element''
                                      (snd ix) JUndefined) unmatched
                        @ map (\<lambda>extra. difference [] ''extra-element'' JUndefined extra) leftover,
                     c_similarity = (if xs = [] then 1
                                     else of_nat (length xs - length unmatched) / of_nat (length xs))\<rparr>))
   \<and> length (snd (greedy_match 0 xs ys)) + (length xs - length (fst (greedy_match 0 xs ys)))
       = length ys"
proof
  show "compareArraysUnordered (JArr xs ps) (JArr ys qs) =
     Inr (if length xs \<noteq> length ys
          then \<lparr>c_equal = False,
                c_differences = [difference [] ''length-mismatch'' (JNum (int (length xs)))
                                   (JNum (int (length ys)))],
                c_similarity = 0\<rparr>
          else (case greedy_match 0 xs ys of
                  (unmatched, leftover) \<Rightarrow>
                    \<lparr>c_equal = (unmatched = [] \<and> leftover = []),
                     c_differences =
                        map (\<lambda>ix. difference (''['' @ show_nat (fst ix) @ '']'') ''missing-element''
                                      (snd ix) JUndefined) unmatched
                        @ map (\<lambda>extra. difference [] ''extra-element'' JUndefined extra) leftover,
                     c_similarity = (if xs = [] then 1
                                     else of_nat (length xs - length unmatched) / of_nat (length xs))\<rparr>))"
    by (cases "greedy_match 0 xs ys")
       (simp add: compareArraysUnordered_def outer_loop_greedy Let_def)
next
  show "length (snd (greedy_match 0 xs ys)) + (length xs - length (fst (greedy_match 0 xs ys)))
       = length ys"
    using greedy_match_counts [of 0 xs ys] by (cases "greedy_match 0 xs ys") simp
qed

theorem unordered_compare_matches_greedily_witness:
  "compareArraysUnordered (JArr [JNum 1, JNum 3, JNum 1] []) (JArr [JNum 2, JNum 1, JNum 1] []) =
     Inr \<lparr>c_equal = False,
          c_differences = [difference ''[1]'' ''missing-element'' (JNum 3) JUndefined,
                           difference [] ''extra-element'' JUndefined (JNum 2)],
          c_similarity = 2 / 3\<rparr>"
proof -
  have g: "greedy_match 0 [JNum 1, JNum 3, JNum 1] [JNum 2, JNum 1, JNum 1] = ([(1, JNum 3)], [JNum 2])"
    by code_simp
  have s: "show_nat (Suc 0) = ''1''" by code_simp
  show ?thesis
    using unordered_compare_matches_greedily
      [of "[JNum 1, JNum 3, JNum 1]" "[]" "[JNum 2, JNum 1, JNum 1]" "[]", unfolded g]
    by (simp add: s)
qed

text \<open>
  Claim C7 as stated fails when the lengths differ: for \<open>a = [1]\<close>, \<open>b = [1, 2]\<close> greedy
  matching would match the \<open>1\<close>, report \<open>2\<close> as an extra element and give similarity
  \<open>1/1\<close>; the code returns the length mismatch alone, with similarity \<open>0\<close>.
\<close>

theorem unordered_compare_stops_at_length_mismatch:
  "compareArraysUnordered (JArr [JNum 1] []) (JArr [JNum 1, JNum 2] []) =
     Inr \<lparr>c_equal = False,
          c_differences = [difference [] ''length-mismatch'' (JNum 1) (JNum 2)],
          c_similarity = 0\<rparr>"
  by (simp add: compareArraysUnordered_def)

section \<open>Properties of the generate engine\<close>

text \<open>
  Claim C3 on the code.  The directive \<open>{$type: 'literal', $value: v}\<close> is a template object
  with a truthy \<open>$type\<close>, so \<open>processTemplate\<close> hands it to \<open>processTemplateDirective\<close>, whose
  \<open>switch\<close> has no \<open>literal\<close> label: with any data and the default options \<open>generateJson\<close>
  raises the unknown-directive error, whatever the other nine cases compute.  Called
  without data it returns the cloned directive itself, not \<open>v\<close>.
\<close>

theorem literal_directive_is_unknown:
  "generateJson G (literal_directive v) (Some data) default_generator_options
     = Inl (JsonGeneratorError ''Unknown template directive: literal''
              (literal_directive (deepCloneTemplate v)) JUndefined)
   \<and> generateJson G (literal_directive v) None default_generator_options
     = Inr (literal_directive (deepCloneTemplate v))"
  by (simp add: generateJson_def generate_try_def default_generator_options_def
      literal_directive_def processTemplateDirective_def)

end
